theory Spec2Isabelle
  imports Main
begin

section \<open>Strings\<close>

text \<open>
  A Python \<open>str\<close> is modelled as a \<^typ>\<open>string\<close> whose characters are the code points
  below 256. Every literal of \<open>create_records.py\<close> that the model needs lies in that
  range; a code point beyond ASCII is written \<open>CHR 0x..\<close>. \<open>Optional[str]\<close> is
  \<^typ>\<open>string option\<close>.
\<close>

definition truthy :: "string option \<Rightarrow> bool" where
  \<comment> \<open>Python's truth value of an \<open>Optional[str]\<close>: \<open>None\<close> and \<open>""\<close> are false.\<close>
  "truthy v = (case v of None \<Rightarrow> False | Some s \<Rightarrow> s \<noteq> [])"

definition or_empty :: "string option \<Rightarrow> string" where
  \<comment> \<open>\<open>v or ""\<close>\<close>
  "or_empty v = (case v of None \<Rightarrow> [] | Some s \<Rightarrow> s)"

definition is_space :: "char \<Rightarrow> bool" where
  \<comment> \<open>\<open>str.isspace\<close> on the code points below 256.\<close>
  "is_space c = (c \<in> set [CHR 0x09, CHR 0x0A, CHR 0x0B, CHR 0x0C, CHR 0x0D,
                             CHR 0x1C, CHR 0x1D, CHR 0x1E, CHR 0x1F, CHR 0x20,
                             CHR 0x85, CHR 0xA0])"

definition strip_chars :: "(char \<Rightarrow> bool) \<Rightarrow> string \<Rightarrow> string" where
  "strip_chars p s = rev (dropWhile p (rev (dropWhile p s)))"

definition strip :: "string \<Rightarrow> string" where
  \<comment> \<open>\<open>s.strip()\<close>\<close>
  "strip s = strip_chars is_space s"

definition lower_char :: "char \<Rightarrow> char" where
  \<comment> \<open>\<open>str.lower\<close> on one code point below 256: A..Z and 0xC0..0xDE without 0xD7.\<close>
  "lower_char c =
     (let n = of_char c :: nat
      in if (65 \<le> n \<and> n \<le> 90) \<or> (192 \<le> n \<and> n \<le> 222 \<and> n \<noteq> 215)
         then char_of (n + 32) else c)"

definition lower :: "string \<Rightarrow> string" where
  "lower s = map lower_char s"

definition upper_char :: "char \<Rightarrow> string" where
  \<comment> \<open>\<open>str.upper\<close> on one code point below 256: a..z and 0xE0..0xFE without 0xF7 move
      down by 32, 0xDF becomes \<open>SS\<close>. The upper case of 0xB5 and of 0xFF lies beyond 255;
      the model leaves these two in place (neither is an ASCII letter either way).\<close>
  "upper_char c =
     (let n = of_char c :: nat
      in if (97 \<le> n \<and> n \<le> 122) \<or> (224 \<le> n \<and> n \<le> 254 \<and> n \<noteq> 247)
         then [char_of (n - 32)]
         else if n = 223 then ''SS'' else [c])"

definition upper :: "string \<Rightarrow> string" where
  "upper s = concat (map upper_char s)"

fun split_on :: "char \<Rightarrow> string \<Rightarrow> string list" where
  \<comment> \<open>\<open>s.split(c)\<close> for a one-character separator: \<open>"".split(",")\<close> is \<open>[""]\<close>.\<close>
  "split_on c [] = [[]]"
| "split_on c (x # xs) =
     (if x = c then [] # split_on c xs
      else (case split_on c xs of [] \<Rightarrow> [[x]] | p # ps \<Rightarrow> (x # p) # ps))"

fun join :: "string \<Rightarrow> string list \<Rightarrow> string" where
  \<comment> \<open>\<open>sep.join(parts)\<close>\<close>
  "join sep [] = []"
| "join sep [p] = p"
| "join sep (p # q # ps) = p @ sep @ join sep (q # ps)"

fun contains :: "string \<Rightarrow> string \<Rightarrow> bool" where
  \<comment> \<open>\<open>needle in s\<close>\<close>
  "contains needle [] = (needle = [])"
| "contains needle (x # xs) = (take (length needle) (x # xs) = needle \<or> contains needle xs)"

fun replace_double_bar :: "string \<Rightarrow> string" where
  \<comment> \<open>\<open>s.replace("||", "; ")\<close>: left to right, occurrences do not overlap.\<close>
  "replace_double_bar (a # b # xs) =
     (if a = CHR ''|'' \<and> b = CHR ''|'' then ''; '' @ replace_double_bar xs
      else a # replace_double_bar (b # xs))"
| "replace_double_bar xs = xs"

section \<open>Objects of the run\<close>

text \<open>
  A Python exception is a value \<open>Exc msg\<close>, with \<open>str(e)\<close> the message; a call that may
  raise returns \<open>exc + 'a\<close>, with \<open>Inl\<close> the exception.
\<close>

datatype exc = Exc string

definition str_exc :: "exc \<Rightarrow> string" where
  "str_exc e = (case e of Exc msg \<Rightarrow> msg)"

definition str_opt :: "string option \<Rightarrow> string" where
  \<comment> \<open>\<open>str(v)\<close> of an \<open>Optional[str]\<close>\<close>
  "str_opt v = (case v of None \<Rightarrow> ''None'' | Some s \<Rightarrow> s)"

definition digit :: "nat \<Rightarrow> char" where
  "digit n = char_of (48 + n)"

fun str_nat :: "nat \<Rightarrow> string" where
  "str_nat n = (if n < 10 then [digit n] else str_nat (n div 10) @ [digit (n mod 10)])"

definition str_int :: "int \<Rightarrow> string" where
  \<comment> \<open>\<open>str(i)\<close>, the decimal numeral\<close>
  "str_int i = (if i < 0 then ''-'' @ str_nat (nat (- i)) else str_nat (nat i))"

text \<open>The dictionary that \<open>NoticeReport.add_location\<close> appends, and \<open>NoticeReport\<close>.\<close>

record location_row =
  loc_location :: string
  loc_holding_id :: "string option"
  loc_holding_status :: "string option"
  loc_holding_error :: "string option"
  loc_item_id :: "string option"
  loc_item_status :: "string option"
  loc_item_error :: "string option"

record notice_report =
  record_index :: int
  infoscience_id :: "string option"
  title :: "string option"
  author :: "string option"
  call_number :: "string option"
  sru_exists :: "bool option"
  mms_id :: "string option"
  bib_status :: "string option"
  bib_error :: "string option"
  locations :: "location_row list"

definition NoticeReport ::
  "int \<Rightarrow> string option \<Rightarrow> string option \<Rightarrow> string option \<Rightarrow> string option \<Rightarrow> notice_report"
where
  "NoticeReport idx ident ttl auth cn =
     \<lparr> record_index = idx, infoscience_id = ident, title = ttl, author = auth,
       call_number = cn, sru_exists = None, mms_id = None, bib_status = None,
       bib_error = None, locations = [] \<rparr>"

definition add_location ::
  "notice_report \<Rightarrow> string \<Rightarrow> string option \<Rightarrow> string option \<Rightarrow> string option
     \<Rightarrow> string option \<Rightarrow> string option \<Rightarrow> string option \<Rightarrow> notice_report"
where
  "add_location rep loc h_id h_status h_error i_id i_status i_error =
     rep\<lparr> locations := locations rep @
            [\<lparr> loc_location = loc, loc_holding_id = h_id, loc_holding_status = h_status,
               loc_holding_error = h_error, loc_item_id = i_id, loc_item_status = i_status,
               loc_item_error = i_error \<rparr>] \<rparr>"

text \<open>
  What the source reads of the catalogue's objects (almapiwrapper's \<open>Holding\<close>, \<open>Item\<close>
  and \<open>IzBib\<close>). \<open>holdings\<close> are the holdings the bib has in the catalogue, and
  \<open>get_holdings_error\<close> tells whether fetching them raises.
\<close>

record holding =
  holding_id :: string
  library :: "string option"
  location :: "string option"
  error :: bool
  error_msg :: "string option"

record item =
  item_id :: "string option"
  item_error :: bool
  item_error_msg :: "string option"

record izbib =
  bib_mms_id :: "string option"
  holdings :: "holding list"
  get_holdings_error :: "exc option"

definition get_holdings :: "izbib \<Rightarrow> exc + holding list" where
  \<comment> \<open>\<open>bib_obj.get_holdings()\<close>\<close>
  "get_holdings bib_obj =
     (case get_holdings_error bib_obj of Some e \<Rightarrow> Inl e | None \<Rightarrow> Inr (holdings bib_obj))"

text \<open>The \<open><item>\<close> element of \<open>build_item_xml_for_holding\<close>, one attribute per child.\<close>

record item_el =
  el_holding_id :: string
  el_base_status :: string
  el_physical_material_type :: "string option"
  el_policy :: "string option"
  el_po_line :: "string option"
  el_arrival_date :: string
  el_library :: "string option"
  el_location :: "string option"
  el_process_type :: "string option"
  el_work_order_at :: "string option"

text \<open>
  The dictionaries of \<open>load_config\<close> that \<open>main\<close> reads, and the parameters of \<open>main\<close>.
\<close>

record general_cfg =
  g_env :: string
  g_institution_code :: string
  g_check_xsd :: bool
  g_report_prefix :: string
  g_skip_sru_check :: bool

record infoscience_cfg =
  i_spc_rpp :: int
  i_of_format :: string
  i_since_strategy :: string

record holding_info =
  h_library_code :: string
  h_locations :: "string list"
  h_call_number_prefix :: string

record item_info =
  po_line :: "string option"
  department_code :: "string option"
  material_type_code :: string

record main_args =
  dry_run :: bool
  use_static_url :: bool
  spc_page :: int
  spc_rpp :: int
  env :: "string option"
  institution_code :: "string option"
  check_xsd :: bool
  max_records :: int
  skip_sru_check :: bool

definition resolve_args :: "main_args \<Rightarrow> general_cfg \<Rightarrow> infoscience_cfg \<Rightarrow> main_args" where
  \<comment> \<open>\<open>main\<close>, from \<open># Env, institution, check_xsd\<close> to the choice of \<open>spc_rpp\<close>: the
      parameters after \<open>main\<close> has reassigned them.\<close>
  "resolve_args a general infoscience =
     a\<lparr> env := (case env a of None \<Rightarrow> Some (g_env general) | Some e \<Rightarrow> Some e),
        institution_code :=
          (case institution_code a of None \<Rightarrow> Some (g_institution_code general)
           | Some c \<Rightarrow> Some c),
        check_xsd := (check_xsd a \<and> g_check_xsd general),
        skip_sru_check := (skip_sru_check a \<or> g_skip_sru_check general),
        spc_rpp := (if spc_rpp a \<le> 0 then i_spc_rpp infoscience else spc_rpp a) \<rparr>"

section \<open>MARC records\<close>

text \<open>
  The part of pymarc that \<open>create_records.py\<close> uses. pymarc decides from the tag whether a
  field is a control field (with \<open>data\<close>) or a data field (with indicators and subfields);
  the model gives every field all four attributes. \<open>add_field\<close> appends to the field list.
\<close>

text \<open>The dictionary that \<open>extract_marc_info\<close> returns.\<close>

record marc_info =
  info_infoscience_id :: "string option"
  info_title :: "string option"
  info_author :: "string option"
  info_responsibility :: "string option"

datatype subfield = Subfield (code: string) (val: string)

datatype marc_field =
  MarcField (tag: string) (data: "string option") (indicators: "string \<times> string")
    (subfields: "subfield list")

datatype marc_record = Record (leader: string) (fields: "marc_field list")

definition control_field :: "string \<Rightarrow> string \<Rightarrow> marc_field" where
  \<comment> \<open>\<open>Field(tag=t, data=d)\<close>\<close>
  "control_field t d = MarcField t (Some d) ([], []) []"

definition data_field :: "string \<Rightarrow> string \<Rightarrow> string \<Rightarrow> subfield list \<Rightarrow> marc_field" where
  \<comment> \<open>\<open>Field(tag=t, indicators=[i1, i2], subfields=subs)\<close>\<close>
  "data_field t i1 i2 subs = MarcField t None (i1, i2) subs"

definition get_fields :: "marc_record \<Rightarrow> string \<Rightarrow> marc_field list" where
  \<comment> \<open>\<open>r.get_fields(t)\<close>\<close>
  "get_fields r t = filter (\<lambda>f. tag f = t) (fields r)"

definition record_get :: "marc_record \<Rightarrow> string \<Rightarrow> marc_field option" where
  \<comment> \<open>\<open>r.get(t)\<close>: the first field with that tag, or \<open>None\<close>.\<close>
  "record_get r t = (case get_fields r t of [] \<Rightarrow> None | f # _ \<Rightarrow> Some f)"

definition record_getitem :: "marc_record \<Rightarrow> string \<Rightarrow> exc + marc_field" where
  \<comment> \<open>\<open>r[t]\<close>: the first field with that tag. The source needs pymarc from version 5 on
      (it imports \<open>Subfield\<close> and calls \<open>Record.get\<close>), where the subscript of a record
      raises \<open>KeyError\<close> for an absent tag and never yields \<open>None\<close>.\<close>
  "record_getitem r t =
     (case get_fields r t of [] \<Rightarrow> Inl (Exc ''KeyError'') | f # _ \<Rightarrow> Inr f)"

definition get_subfields :: "marc_field \<Rightarrow> string \<Rightarrow> string list" where
  \<comment> \<open>\<open>f.get_subfields(c)\<close>\<close>
  "get_subfields f c = map val (filter (\<lambda>s. code s = c) (subfields f))"

definition field_has :: "marc_field \<Rightarrow> string \<Rightarrow> bool" where
  \<comment> \<open>\<open>c in f\<close>\<close>
  "field_has f c = (c \<in> set (map code (subfields f)))"

definition field_get :: "marc_field \<Rightarrow> string \<Rightarrow> string option" where
  \<comment> \<open>\<open>f.get(c)\<close>: the first value of subfield \<open>c\<close>, or \<open>None\<close>.\<close>
  "field_get f c = (case get_subfields f c of [] \<Rightarrow> None | v # _ \<Rightarrow> Some v)"

definition field_getitem :: "marc_field \<Rightarrow> string \<Rightarrow> exc + string" where
  \<comment> \<open>\<open>f[c]\<close>, which the source evaluates only under \<open>c in f\<close>; a missing code is kept
      as the error value.\<close>
  "field_getitem f c =
     (case get_subfields f c of [] \<Rightarrow> Inl (Exc ''KeyError'') | v # _ \<Rightarrow> Inr v)"

definition fget :: "marc_record \<Rightarrow> string \<Rightarrow> string \<Rightarrow> string option" where
  "fget r t c =
     (case record_get r t of
        None \<Rightarrow> None
      | Some f \<Rightarrow> if field_has f c then field_get f c else None)"

definition fget_all :: "marc_record \<Rightarrow> string \<Rightarrow> string \<Rightarrow> string list" where
  "fget_all r t c = concat (map (\<lambda>f. get_subfields f c) (get_fields r t))"

definition first :: "string option list \<Rightarrow> string option" where
  "first it = (case it of [] \<Rightarrow> None | x # _ \<Rightarrow> x)"

definition EPFL_FULL_NAME :: string where
  "EPFL_FULL_NAME = ''Ecole Polytechnique F'' @ [CHR 0xE9, CHR ''d'', CHR 0xE9] @ ''rale de Lausanne''"

definition expand_epfl :: "string option \<Rightarrow> string option" where
  "expand_epfl v =
     (case v of
        None \<Rightarrow> None
      | Some s \<Rightarrow>
          if s = [] then Some s
          else if upper (strip s) = ''EPFL'' then Some EPFL_FULL_NAME else Some s)"

section \<open>Field helpers of the mapper\<close>

definition invert_name_comma :: "string option \<Rightarrow> string option" where
  "invert_name_comma name =
     (case name of
        None \<Rightarrow> None
      | Some n \<Rightarrow>
          if n = [] then Some n
          else (case map strip (split_on CHR '','' n) of
                  last_part # p # ps \<Rightarrow>
                    Some (strip (strip (join '' '' (p # ps)) @ '' '' @ last_part))
                | _ \<Rightarrow> Some n))"

definition ensure_pages_suffix :: "string option \<Rightarrow> string option" where
  "ensure_pages_suffix v =
     (case v of
        None \<Rightarrow> None
      | Some s \<Rightarrow>
          if s = [] then Some s
          else if contains ''pages'' (lower s) then Some s
          else Some (strip s @ '' pages''))"

section \<open>The field mapper\<close>

text \<open>
  \<open>build_final_record\<close> adds the fields of the target record one block after the other;
  each block of the source is one definition here, named after the tag it writes, and
  \<open>build_final_record\<close> puts them in the order of the source.
\<close>

definition opt_subfield :: "string \<Rightarrow> string option \<Rightarrow> subfield list" where
  \<comment> \<open>\<open>if v: subs.append(Subfield(c, v))\<close>\<close>
  "opt_subfield c v = (if truthy v then [Subfield c (or_empty v)] else [])"

definition opt_field :: "string \<Rightarrow> string \<Rightarrow> string \<Rightarrow> subfield list \<Rightarrow> marc_field list" where
  \<comment> \<open>\<open>if subs: dst.add_field(Field(tag=t, indicators=[i1, i2], subfields=subs))\<close>\<close>
  "opt_field t i1 i2 subs = (if subs = [] then [] else [data_field t i1 i2 subs])"

definition FINAL_LEADER :: string where
  "FINAL_LEADER = ''00000nam a2200000 c 4500''"

definition AGENCY :: string where
  "AGENCY = ''CH-ZuSLS EPFL''"

definition cf001 :: "marc_record \<Rightarrow> exc + string option" where
  \<comment> \<open>\<open>src["001"].data if src["001"] is not None else None\<close>: the test evaluates the
      subscript first, and the subscript raises when the record has no 001.\<close>
  "cf001 src = (case record_getitem src ''001'' of Inl e \<Rightarrow> Inl e | Inr f \<Rightarrow> Inr (data f))"

definition dst_001 :: "string option \<Rightarrow> marc_field list" where
  \<comment> \<open>\<open>if cf001: dst.add_field(Field(tag="001", data=cf001))\<close>\<close>
  "dst_001 c = (if truthy c then [control_field ''001'' (or_empty c)] else [])"

definition dst_008 :: marc_field where
  "dst_008 = control_field ''008'' ''||||||s2025    sz   a   m    00| | eng  ''"

definition dst_040 :: marc_field where
  "dst_040 =
     data_field ''040'' '' '' '' ''
       [Subfield ''a'' AGENCY, Subfield ''b'' ''fre'', Subfield ''e'' ''rda'']"

definition author700a :: "marc_record \<Rightarrow> string option" where
  "author700a src =
     first (map (\<lambda>f. field_get f ''a'')
                (filter (\<lambda>f. field_has f ''a'') (get_fields src ''700'')))"

definition dst_100 :: "marc_record \<Rightarrow> marc_field" where
  "dst_100 src =
     data_field ''100'' ''1'' '' '' (opt_subfield ''a'' (author700a src) @ [Subfield ''4'' ''aut''])"

definition dst_245 :: "marc_record \<Rightarrow> marc_field list" where
  "dst_245 src =
     opt_field ''245'' ''1'' ''0''
       (opt_subfield ''a'' (fget src ''245'' ''a'')
        @ opt_subfield ''b'' (fget src ''245'' ''b'')
        @ opt_subfield ''c'' (invert_name_comma (author700a src)))"

definition dst_264 :: "marc_record \<Rightarrow> marc_field list" where
  "dst_264 src =
     opt_field ''264'' '' '' ''1''
       (opt_subfield ''a'' (fget src ''260'' ''a'')
        @ opt_subfield ''b'' (expand_epfl (fget src ''260'' ''b''))
        @ opt_subfield ''c'' (fget src ''260'' ''c''))"

definition dst_300 :: "marc_record \<Rightarrow> marc_field" where
  "dst_300 src =
     data_field ''300'' '' '' '' ''
       (opt_subfield ''a'' (ensure_pages_suffix (fget src ''300'' ''a''))
        @ [Subfield ''b'' ''illustrations'', Subfield ''c'' ''28 cm''])"

definition dst_336 :: marc_field where
  "dst_336 = data_field ''336'' '' '' '' '' [Subfield ''b'' ''txt'', Subfield ''2'' ''rdacontent'']"

definition dst_337 :: marc_field where
  "dst_337 = data_field ''337'' '' '' '' '' [Subfield ''b'' ''n'', Subfield ''2'' ''rdamedia'']"

definition dst_338 :: marc_field where
  "dst_338 = data_field ''338'' '' '' '' '' [Subfield ''b'' ''nc'', Subfield ''2'' ''rdacarrier'']"

definition THESE :: string where
  "THESE = ''Th'' @ [CHR 0xE8] @ ''se''"

definition thesis_type :: "string option \<Rightarrow> subfield list" where
  \<comment> \<open>the \<open>$b\<close> of 502, from 336\<open>$a\<close>\<close>
  "thesis_type b_336a =
     (if truthy b_336a
      then [Subfield ''b'' (if lower (strip (or_empty b_336a)) = ''theses'' then THESE
                            else or_empty b_336a)]
      else [])"

definition thesis_place :: "string option \<Rightarrow> string option \<Rightarrow> subfield list" where
  \<comment> \<open>the \<open>$c\<close> of 502: \<open>f"{a260b or ''} {a260a or ''}".strip()\<close>\<close>
  "thesis_place a260a a260b =
     (if truthy a260a \<or> truthy a260b
      then [Subfield ''c'' (strip (or_empty a260b @ '' '' @ or_empty a260a))]
      else [])"

definition thesis_number :: "string option \<Rightarrow> subfield list" where
  \<comment> \<open>the \<open>$o\<close> of 502, from 088\<open>$a\<close>\<close>
  "thesis_number a088a =
     (if truthy a088a then [Subfield ''o'' (''n'' @ [CHR 0xB0] @ '' '' @ or_empty a088a)] else [])"

definition dst_502 :: "marc_record \<Rightarrow> marc_field list" where
  "dst_502 src =
     opt_field ''502'' '' '' '' ''
       (thesis_type (fget src ''336'' ''a'')
        @ thesis_place (fget src ''260'' ''a'') (fget src ''260'' ''b'')
        @ opt_subfield ''d'' (fget src ''920'' ''b'')
        @ thesis_number (fget src ''088'' ''a''))"

definition keywords_653 :: "marc_record \<Rightarrow> string list" where
  \<comment> \<open>\<open>[k.strip() for k in fget_all(src, "653", "a") if k and k.strip()]\<close>\<close>
  "keywords_653 src =
     map strip (filter (\<lambda>k. k \<noteq> [] \<and> strip k \<noteq> []) (fget_all src ''653'' ''a''))"

fun dedup_loop :: "string list \<Rightarrow> string set \<Rightarrow> string list \<Rightarrow> string list" where
  \<comment> \<open>the loop over the keywords with its two variables \<open>seen\<close> and \<open>deduped\<close>\<close>
  "dedup_loop [] seen deduped = deduped"
| "dedup_loop (k # ks) seen deduped =
     (if k \<in> seen then dedup_loop ks seen deduped
      else dedup_loop ks (insert k seen) (deduped @ [k]))"

definition KEYWORDS_LABEL :: string where
  "KEYWORDS_LABEL = ''Mots-cl'' @ [CHR 0xE9] @ ''s de l'' @ [CHR 0x27] @ ''auteur : ''"

definition dst_520 :: "marc_record \<Rightarrow> marc_field" where
  "dst_520 src =
     (let deduped = dedup_loop (keywords_653 src) {} []
      in data_field ''520'' '' '' '' ''
           ((if deduped = [] then []
             else [Subfield ''a'' (KEYWORDS_LABEL @ replace_double_bar (join ''; '' deduped))])
            @ [Subfield ''5'' AGENCY]))"

definition dst_655_idref :: marc_field where
  "dst_655_idref =
     data_field ''655'' '' '' ''7''
       [Subfield ''a'' (''Th'' @ [CHR 0xE8] @ ''ses et '' @ [CHR 0xE9] @ ''crits acad''
                        @ [CHR 0xE9] @ ''miques''),
        Subfield ''0'' ''(IDREF)027253139'', Subfield ''2'' ''idref'']"

definition dst_655_gnd :: marc_field where
  "dst_655_gnd =
     data_field ''655'' '' '' ''7''
       [Subfield ''a'' ''Hochschulschrift'', Subfield ''2'' ''gnd-content'']"

definition dst_655_sbt :: marc_field where
  "dst_655_sbt =
     data_field ''655'' '' '' ''7'' [Subfield ''a'' ''Tesi'', Subfield ''2'' ''sbt12-content'']"

definition cand_720 :: "marc_record \<Rightarrow> marc_field option" where
  \<comment> \<open>the first 720 with second indicator \<open>2\<close> and an \<open>$a\<close>, else the first 720 with an \<open>$a\<close>\<close>
  "cand_720 src =
     (case find (\<lambda>f. snd (indicators f) = ''2'' \<and> field_has f ''a'') (get_fields src ''720'') of
        Some f \<Rightarrow> Some f
      | None \<Rightarrow> find (\<lambda>f. field_has f ''a'') (get_fields src ''720''))"

definition dst_700 :: "marc_record \<Rightarrow> exc + marc_field" where
  "dst_700 src =
     (case cand_720 src of
        Some f \<Rightarrow>
          (case field_getitem f ''a'' of
             Inl e \<Rightarrow> Inl e
           | Inr a \<Rightarrow> Inr (data_field ''700'' ''1'' '' '' [Subfield ''a'' a, Subfield ''4'' ''dgs'']))
      | None \<Rightarrow> Inr (data_field ''700'' ''1'' '' '' [Subfield ''4'' ''dgs'']))"

definition build_final_record :: "marc_record \<Rightarrow> exc + marc_record" where
  "build_final_record src =
     (case cf001 src of
        Inl e \<Rightarrow> Inl e
      | Inr c \<Rightarrow>
          (case dst_700 src of
             Inl e \<Rightarrow> Inl e
           | Inr f700 \<Rightarrow>
               Inr (Record FINAL_LEADER
                      (dst_001 c @ [dst_008, dst_040, dst_100 src] @ dst_245 src @ dst_264 src
                       @ [dst_300 src, dst_336, dst_337, dst_338] @ dst_502 src
                       @ [dst_520 src, dst_655_idref, dst_655_gnd, dst_655_sbt, f700]))))"

definition title_of_245 :: "marc_field \<Rightarrow> string option" where
  \<comment> \<open>the title that \<open>extract_marc_info\<close> makes of the first 245: \<open>$a\<close> and \<open>$b\<close> joined by a
      space, then \<open>strip(" /")\<close>\<close>
  "title_of_245 f245 =
     (let raw_title = join '' '' (map or_empty (filter truthy [field_get f245 ''a'', field_get f245 ''b'']))
      in if raw_title = [] then None
         else Some (strip_chars (\<lambda>c. c = CHR '' '' \<or> c = CHR ''/'') raw_title))"

definition extract_marc_info :: "marc_record \<Rightarrow> exc + marc_info" where
  \<comment> \<open>\<open>if record["001"]\<close> raises when the record has no 001.\<close>
  "extract_marc_info r =
     (case record_getitem r ''001'' of
        Inl e \<Rightarrow> Inl e
      | Inr f001 \<Rightarrow>
          Inr \<lparr> info_infoscience_id = data f001,
                info_title =
                  (case get_fields r ''245'' of [] \<Rightarrow> None | f245 # _ \<Rightarrow> title_of_245 f245),
                info_author =
                  (case get_fields r ''100'' of [] \<Rightarrow> None | f100 # _ \<Rightarrow> field_get f100 ''a''),
                info_responsibility =
                  (case get_fields r ''245'' of [] \<Rightarrow> None | f245 # _ \<Rightarrow> field_get f245 ''c'') \<rparr>)"

section \<open>The ingestion stream\<close>

text \<open>
  \<open>iter_infoscience_records\<close> is a generator. Its model returns what the generator does
  when it is drained: the records it yields, in order, and the exception it raises into
  its consumer, if any. \<open>None\<close> stands for a pagination that never ends. The network is
  the parameter \<open>http_get\<close>: for each URL, either the exception of \<open>requests.get\<close> or a
  response with its status code and what \<open>parse_xml_to_array\<close> makes of its content.
\<close>

datatype infoscience_url =
  StaticUrl | ExportUrl (url_spc_page: int) (url_spc_rpp: int) (url_of_format: string)

datatype export_response =
  ExportResponse (exp_status_code: int) (exp_records: "exc + marc_record list")

definition build_infoscience_url :: "int \<Rightarrow> int \<Rightarrow> string \<Rightarrow> infoscience_url" where
  "build_infoscience_url page rpp of_format = ExportUrl page rpp of_format"

definition raise_for_status :: "int \<Rightarrow> exc + unit" where
  \<comment> \<open>\<open>resp.raise_for_status()\<close> raises on the status codes 400 to 599.\<close>
  "raise_for_status status =
     (if 400 \<le> status \<and> status < 600 then Inl (Exc ''HTTPError'') else Inr ())"

definition static_fetch ::
  "(infoscience_url \<Rightarrow> exc + export_response) \<Rightarrow> marc_record list \<times> exc option" where
  \<comment> \<open>the branch \<open>if use_static_url\<close>: nothing around the three calls catches\<close>
  "static_fetch http_get =
     (case http_get StaticUrl of
        Inl e \<Rightarrow> ([], Some e)
      | Inr resp \<Rightarrow>
          (case raise_for_status (exp_status_code resp) of
             Inl e \<Rightarrow> ([], Some e)
           | Inr _ \<Rightarrow>
               (case exp_records resp of
                  Inl e \<Rightarrow> ([], Some e)
                | Inr records \<Rightarrow> (records, None))))"

partial_function (option) paginate ::
  "(infoscience_url \<Rightarrow> exc + export_response) \<Rightarrow> int \<Rightarrow> string \<Rightarrow> int \<Rightarrow> marc_record list
     \<Rightarrow> marc_record list option"
where
  \<comment> \<open>the loop \<open>while True\<close>; \<open>yielded\<close> are the records yielded so far, and each
      \<open>break\<close> ends the generator\<close>
  "paginate http_get rpp of_format page yielded =
     (case http_get (build_infoscience_url page rpp of_format) of
        Inl e \<Rightarrow> Some yielded
      | Inr resp \<Rightarrow>
          (case raise_for_status (exp_status_code resp) of
             Inl e \<Rightarrow> Some yielded
           | Inr _ \<Rightarrow>
               (case exp_records resp of
                  Inl e \<Rightarrow> Some yielded
                | Inr records \<Rightarrow>
                    if records = [] then Some yielded
                    else paginate http_get rpp of_format (page + 1) (yielded @ records))))"

definition iter_infoscience_records ::
  "(infoscience_url \<Rightarrow> exc + export_response) \<Rightarrow> bool \<Rightarrow> int \<Rightarrow> int \<Rightarrow> string
     \<Rightarrow> (marc_record list \<times> exc option) option"
where
  "iter_infoscience_records http_get use_static start_spc_page rpp of_format =
     (if use_static then Some (static_fetch http_get)
      else map_option (\<lambda>yielded. (yielded, None))
             (paginate http_get rpp of_format start_spc_page []))"

section \<open>The catalogue: holdings and items\<close>

text \<open>
  The \<open><bib>\<close> and \<open><holding>\<close> elements carry the MARC record they are built from. A
  schema is the function that \<open>schema.validate\<close> and \<open>schema.error_log\<close> compute together:
  from an element to the verdict and the messages. What a function does to the catalogue
  and what it logs is returned as a list of events, in order, next to its result; the
  answer of the catalogue to a creation is a parameter. A log event has the level, the
  format string of the source (without its pictogram, which lies beyond code point 255)
  and the arguments.
\<close>

datatype bib_el = BibEl (bib_children: "marc_record list")

datatype holding_el = HoldingEl (holding_record: marc_record)

datatype alma_call =
  CreateBib bib_el | GetHoldings | CreateHolding holding_el | CreateItem item_el

datatype level = INFO | ERROR

datatype event = Log level string "string list" | Call alma_call

definition validate_xml_element ::
  "'e option \<Rightarrow> ('e \<Rightarrow> bool \<times> string list) option \<Rightarrow> string \<Rightarrow> bool \<Rightarrow> bool \<times> string list"
where
  "validate_xml_element element schema element_label required =
     (case element of
        None \<Rightarrow>
          if required then (False, [''No <'' @ element_label @ ''> element found''])
          else (True, [])
      | Some el \<Rightarrow>
          (case schema of
             None \<Rightarrow> (True, [])
           | Some validate \<Rightarrow>
               if fst (validate el) then (True, []) else (False, snd (validate el))))"

definition validate_bib_and_record ::
  "bib_el \<Rightarrow> (marc_record \<Rightarrow> bool \<times> string list) option
     \<Rightarrow> (bib_el \<Rightarrow> bool \<times> string list) option
     \<Rightarrow> (bool \<times> string list) \<times> (bool \<times> string list)"
where
  \<comment> \<open>the pair of \<open>(record_valid, record_errors)\<close> and \<open>(bib_valid, bib_errors)\<close>\<close>
  "validate_bib_and_record bib_element marc_schema bib_schema =
     (let rec_element = (case bib_children bib_element of [] \<Rightarrow> None | r # _ \<Rightarrow> Some r)
      in (validate_xml_element rec_element marc_schema ''record'' True,
          validate_xml_element (Some bib_element) bib_schema ''bib'' True))"

definition validate_holding_xml ::
  "holding_el \<Rightarrow> (holding_el \<Rightarrow> bool \<times> string list) option \<Rightarrow> bool \<times> string list" where
  "validate_holding_xml holding_element holding_schema =
     validate_xml_element (Some holding_element) holding_schema ''holding'' True"

definition validate_item_xml ::
  "item_el \<Rightarrow> (item_el \<Rightarrow> bool \<times> string list) option \<Rightarrow> bool \<times> string list" where
  "validate_item_xml item_element item_schema =
     validate_xml_element (Some item_element) item_schema ''item'' True"

definition build_bib_with_record :: "marc_record \<Rightarrow> exc option \<Rightarrow> exc + marc_record \<times> bib_el"
where
  \<comment> \<open>\<open>marcxml_error\<close>: the exception of \<open>record_to_xml\<close> or \<open>etree.fromstring\<close>, if they
      raise on the final record\<close>
  "build_bib_with_record src_record marcxml_error =
     (case build_final_record src_record of
        Inl e \<Rightarrow> Inl e
      | Inr final_record \<Rightarrow>
          (case marcxml_error of
             Some e \<Rightarrow> Inl e
           | None \<Rightarrow> Inr (final_record, BibEl [final_record])))"

fun find_in_holdings :: "holding list \<Rightarrow> string \<Rightarrow> string \<Rightarrow> holding option" where
  \<comment> \<open>the loop \<open>for h in holdings\<close> of \<open>find_existing_holding\<close>\<close>
  "find_in_holdings [] library_code loc = None"
| "find_in_holdings (h # hs) library_code loc =
     (if error h then find_in_holdings hs library_code loc
      else if truthy (library h) \<and> truthy (location h)
      then (if library h = Some library_code \<and> location h = Some loc then Some h
            else find_in_holdings hs library_code loc)
      else find_in_holdings hs library_code loc)"

definition find_existing_holding ::
  "izbib \<Rightarrow> string \<Rightarrow> string \<Rightarrow> event list \<times> holding option" where
  "find_existing_holding bib_obj library_code loc =
     ([Call GetHoldings],
      (case get_holdings bib_obj of
         Inl e \<Rightarrow> None
       | Inr hs \<Rightarrow> if hs = [] then None else find_in_holdings hs library_code loc))"

definition build_holding_marc :: "string \<Rightarrow> string \<Rightarrow> string \<Rightarrow> marc_record" where
  "build_holding_marc library_code loc call_no =
     Record ''00000nx a2200061zn 450''
       [control_field ''008'' ''1011252u 8 4001uueng0000000'',
        data_field ''852'' ''4'' '' ''
          [Subfield ''b'' library_code, Subfield ''c'' loc, Subfield ''j'' call_no]]"

definition build_holding_xml :: "marc_record \<Rightarrow> holding_el" where
  "build_holding_xml r = HoldingEl r"

definition create_holding_in_alma ::
  "izbib \<Rightarrow> holding_el \<Rightarrow> exc + holding
     \<Rightarrow> event list \<times> (exc + holding option \<times> string option)"
where
  \<comment> \<open>\<open>created\<close>: what \<open>Holding(..., create_holding=True)\<close> raises or returns\<close>
  "create_holding_in_alma bib_obj holding_element created =
     (if truthy (bib_mms_id bib_obj)
      then ([Call (CreateHolding holding_element)],
            (case created of
               Inl e \<Rightarrow> Inl e
             | Inr h \<Rightarrow> if error h then Inr (None, error_msg h) else Inr (Some h, None)))
      else ([], Inr (None, Some ''MMS ID introuvable.'')))"

definition creer_holding ::
  "izbib \<Rightarrow> string \<Rightarrow> string \<Rightarrow> string \<Rightarrow> (holding_el \<Rightarrow> bool \<times> string list) option
     \<Rightarrow> exc + holding \<Rightarrow> event list \<times> (exc + holding option)"
where
  "creer_holding bib_obj library_code loc call_no holding_schema created =
     (case find_existing_holding bib_obj library_code loc of
        (ev0, Some existing) \<Rightarrow>
          (ev0 @ [Log INFO (''Holding d'' @ [CHR 0xE9] @ ''j'' @ [CHR 0xE0] @ '' existante (%s/%s) : %s'')
                    [library_code, loc, holding_id existing]],
           Inr (Some existing))
      | (ev0, None) \<Rightarrow>
          (let holding_element = build_holding_xml (build_holding_marc library_code loc call_no);
               v = validate_holding_xml holding_element holding_schema
           in if fst v
              then (case create_holding_in_alma bib_obj holding_element created of
                      (ev1, Inl e) \<Rightarrow>
                        (ev0 @ [Log INFO (''Holding valide, on peut l'' @ [CHR 0x27]
                                          @ ''envoyer '' @ [CHR 0xE0] @ '' Alma.'') []] @ ev1,
                         Inl e)
                    | (ev1, Inr (h, err)) \<Rightarrow>
                        if truthy err
                        then (ev0 @ [Log INFO (''Holding valide, on peut l'' @ [CHR 0x27]
                                              @ ''envoyer '' @ [CHR 0xE0] @ '' Alma.'') []] @ ev1
                              @ [Log INFO ''Erreur Alma : %s'' [str_opt err]],
                              Inr None)
                        else (case h of
                                None \<Rightarrow>
                                  (ev0 @ [Log INFO (''Holding valide, on peut l'' @ [CHR 0x27]
                                              @ ''envoyer '' @ [CHR 0xE0] @ '' Alma.'') []] @ ev1,
                                   Inl (Exc ''AttributeError''))
                              | Some created_holding \<Rightarrow>
                                  (ev0 @ [Log INFO (''Holding valide, on peut l'' @ [CHR 0x27]
                                              @ ''envoyer '' @ [CHR 0xE0] @ '' Alma.'') []] @ ev1
                                   @ [Log INFO (''Holding cr'' @ [CHR 0xE9] @ [CHR 0xE9] @ '' avec succ''
                                                @ [CHR 0xE8] @ ''s. ID : %s'')
                                        [holding_id created_holding]],
                                   Inr (Some created_holding))))
              else (ev0 @ [Log INFO ''Holding Alma invalide :'' []]
                    @ map (\<lambda>e. Log INFO '' - %s'' [e]) (snd v),
                    Inr None)))"

definition build_item_xml_for_holding ::
  "holding \<Rightarrow> string \<Rightarrow> string option \<Rightarrow> string \<Rightarrow> string option \<Rightarrow> string \<Rightarrow> string option
     \<Rightarrow> item_el"
where
  \<comment> \<open>\<open>arrival_date\<close> is today's date: the source passes none and takes \<open>date.today()\<close>\<close>
  "build_item_xml_for_holding h base_status po arrival_date department material_type policy =
     \<lparr> el_holding_id = holding_id h,
       el_base_status = base_status,
       el_physical_material_type = (if material_type = [] then None else Some material_type),
       el_policy = (if truthy policy then policy else None),
       el_po_line = (if truthy po then po else None),
       el_arrival_date = arrival_date,
       el_library = (if truthy (library h) then library h else None),
       el_location = (if truthy (location h) then location h else None),
       el_process_type = (if truthy department then Some ''WORK_ORDER_DEPARTMENT'' else None),
       el_work_order_at = (if truthy department then department else None) \<rparr>"

definition create_item ::
  "holding \<Rightarrow> string \<Rightarrow> string option \<Rightarrow> string option \<Rightarrow> string
     \<Rightarrow> (item_el \<Rightarrow> bool \<times> string list) option \<Rightarrow> string \<Rightarrow> exc + item
     \<Rightarrow> event list \<times> (exc + string option)"
where
  \<comment> \<open>\<open>creer_item_pour_une_holding\<close> from \<open>item_el = build_item_xml_for_holding(...)\<close> on,
      with the status and policy code that the location has selected\<close>
  "create_item h status_code po department material_type item_schema today created =
     (let item_element =
            build_item_xml_for_holding h status_code po today department material_type
              (Some status_code);
          v = validate_item_xml item_element item_schema
      in if fst v
         then (case created of
                 Inl e \<Rightarrow> ([Call (CreateItem item_element)], Inl e)
               | Inr it \<Rightarrow>
                   if item_error it
                   then ([Call (CreateItem item_element),
                          Log ERROR (''Erreur Alma cr'' @ [CHR 0xE9] @ ''ation item pour holding %s (%s/%s) : %s'')
                            [holding_id h, str_opt (library h), str_opt (location h),
                             str_opt (item_error_msg it)]],
                         Inr None)
                   else ([Call (CreateItem item_element),
                          Log INFO (''Item cr'' @ [CHR 0xE9] @ [CHR 0xE9] @ '' pour holding %s (%s/%s) - item_id = %s'')
                            [holding_id h, str_opt (library h), str_opt (location h),
                             str_opt (item_id it)]],
                         Inr (item_id it)))
         else (Log ERROR ''Item invalide (holding %s) :'' [holding_id h]
               # map (\<lambda>e. Log ERROR ''   - %s'' [e]) (snd v),
               Inr None))"

definition creer_item_pour_une_holding ::
  "holding \<Rightarrow> string option \<Rightarrow> string option \<Rightarrow> string
     \<Rightarrow> (item_el \<Rightarrow> bool \<times> string list) option \<Rightarrow> string \<Rightarrow> exc + item
     \<Rightarrow> event list \<times> (exc + string option)"
where
  "creer_item_pour_une_holding h po department material_type item_schema today created =
     (if location h = Some ''E02SP''
      then create_item h ''04'' po department material_type item_schema today created
      else if location h = Some ''E02XA''
      then create_item h ''70'' po department material_type item_schema today created
      else ([Log INFO (''Localisation '' @ [CHR 0x27] @ ''%s'' @ [CHR 0x27] @ '' non g'' @ [CHR 0xE9]
                       @ ''r'' @ [CHR 0xE9] @ ''e -> aucun item cr'' @ [CHR 0xE9] @ [CHR 0xE9] @ ''.'')
               [str_opt (location h)]],
            Inr None))"

section \<open>The run\<close>

text \<open>
  What the outside answers while one source record is processed, taken as given: the
  catalogue search (from the URL and the query to the exception of \<open>requests.get\<close> or
  the response, with what \<open>etree.fromstring\<close> makes of its content: the exception, or
  whether the first \<open>recordData\<close> is there and holds a MARC record), the serialisation of
  the final record, the creation of the bib and, for the location at each position of the
  list, the catalogue's holdings of the bib at that time and its answers to the creation
  of a holding and of an item.
\<close>

datatype sru_response =
  SruResponse (sru_status_code: int) (sru_root: "exc + marc_record option option")

datatype loc_world =
  LocWorld (lw_holdings: "holding list") (lw_get_holdings_error: "exc option")
    (lw_created_holding: "exc + holding") (lw_created_item: "exc + item")

datatype world =
  World (w_requests_get: "string \<Rightarrow> string \<Rightarrow> exc + sru_response")
    (w_marcxml_error: "exc option") (w_created_bib: "exc + izbib") (w_loc: "nat \<Rightarrow> loc_world")

text \<open>
  What stays the same during the run: the parameters of \<open>main\<close> after it has merged them
  with the configuration, the \<open>holding\<close> and \<open>item\<close> dictionaries, the four schemas
  (\<open>None\<close> when the check is off or the file did not load) and today's date.
\<close>

datatype schemas =
  Schemas (marc_schema: "(marc_record \<Rightarrow> bool \<times> string list) option")
    (bib_schema: "(bib_el \<Rightarrow> bool \<times> string list) option")
    (holding_schema: "(holding_el \<Rightarrow> bool \<times> string list) option")
    (item_schema: "(item_el \<Rightarrow> bool \<times> string list) option")

datatype run =
  Run (args: main_args) (holding_cfg: holding_info) (item_cfg: item_info) (xsd: schemas)
    (today: string)

definition sru_base_url :: "string \<Rightarrow> string" where
  "sru_base_url inst = ''https://swisscovery.ch/view/sru/41SLSP_'' @ inst"

definition sru_query :: "string \<Rightarrow> string \<Rightarrow> string" where
  \<comment> \<open>\<open>title="..." AND creator="..."\<close>\<close>
  "sru_query ttl auth =
     ''title='' @ [CHR 0x22] @ ttl @ [CHR 0x22] @ '' AND creator='' @ [CHR 0x22] @ auth
     @ [CHR 0x22]"

definition fetch_marc_record_from_sru ::
  "string \<Rightarrow> string \<Rightarrow> string \<Rightarrow> (string \<Rightarrow> string \<Rightarrow> exc + sru_response) \<Rightarrow> exc + bool"
where
  "fetch_marc_record_from_sru ttl auth inst requests_get =
     (case requests_get (sru_base_url inst) (sru_query ttl auth) of
        Inl e \<Rightarrow> Inl e
      | Inr response \<Rightarrow>
          if sru_status_code response \<noteq> 200 then Inr False
          else (case sru_root response of
                  Inl e \<Rightarrow> Inl e
                | Inr None \<Rightarrow> Inr False
                | Inr (Some None) \<Rightarrow> Inr False
                | Inr (Some (Some marc)) \<Rightarrow> Inr True))"

definition dedup_check ::
  "run \<Rightarrow> world \<Rightarrow> marc_info \<Rightarrow> notice_report \<Rightarrow> exc + notice_report \<times> bool" where
  \<comment> \<open>\<open>main\<close>, \<open>if skip_sru_check: ... else: try: ...\<close>: the report and \<open>exists\<close>, or the
      exception that the handler of \<open>main\<close> catches\<close>
  "dedup_check r w info rep =
     (if skip_sru_check (args r) then Inr (rep\<lparr> sru_exists := None \<rparr>, False)
      else (case fetch_marc_record_from_sru (or_empty (info_title info))
                   (or_empty (info_author info)) (str_opt (institution_code (args r)))
                   (w_requests_get w) of
              Inl e \<Rightarrow> Inl e
            | Inr exists \<Rightarrow> Inr (rep\<lparr> sru_exists := Some exists \<rparr>, exists)))"

definition sync_location ::
  "run \<Rightarrow> izbib \<Rightarrow> loc_world \<Rightarrow> string \<Rightarrow> string \<Rightarrow> notice_report
     \<Rightarrow> event list \<times> notice_report"
where
  \<comment> \<open>\<open>main\<close>, the body of \<open>for loc in holding_info["locations"]\<close> with its handler\<close>
  "sync_location r bib_obj lw call_number_str loc rep =
     (case creer_holding
             (bib_obj\<lparr> holdings := lw_holdings lw,
                       get_holdings_error := lw_get_holdings_error lw \<rparr>)
             (h_library_code (holding_cfg r)) loc call_number_str (holding_schema (xsd r))
             (lw_created_holding lw) of
        (ev_h, Inl e) \<Rightarrow>
          (ev_h,
           add_location rep loc None (Some ''ERROR'') (Some (str_exc e)) None (Some ''SKIPPED'')
             None)
      | (ev_h, Inr None) \<Rightarrow>
          (ev_h,
           add_location rep loc None (Some ''ERROR'')
             (Some ''Holding creation failed (see logs)'') None (Some ''SKIPPED'') None)
      | (ev_h, Inr (Some h)) \<Rightarrow>
          (case creer_item_pour_une_holding h (po_line (item_cfg r))
                  (department_code (item_cfg r)) (material_type_code (item_cfg r))
                  (item_schema (xsd r)) (today r) (lw_created_item lw) of
             (ev_i, Inl e) \<Rightarrow>
               (ev_h @ ev_i,
                add_location rep loc None (Some ''ERROR'') (Some (str_exc e)) None
                  (Some ''SKIPPED'') None)
           | (ev_i, Inr new_item_id) \<Rightarrow>
               if truthy new_item_id
               then (ev_h @ ev_i,
                     add_location rep loc (Some (holding_id h)) (Some ''CREATED'') None
                       (Some (str_opt new_item_id)) (Some ''CREATED'') None)
               else (ev_h @ ev_i,
                     add_location rep loc (Some (holding_id h)) (Some ''CREATED'') None None
                       (Some ''ERROR'') (Some ''Item creation failed (see logs)''))))"

fun sync_locations ::
  "run \<Rightarrow> izbib \<Rightarrow> (nat \<Rightarrow> loc_world) \<Rightarrow> string \<Rightarrow> nat \<Rightarrow> string list \<Rightarrow> notice_report
     \<Rightarrow> event list \<times> notice_report"
where
  \<comment> \<open>the loop over the locations; \<open>i\<close> is the position of the next one\<close>
  "sync_locations r bib_obj lws call_number_str i [] rep = ([], rep)"
| "sync_locations r bib_obj lws call_number_str i (loc # locs) rep =
     (case sync_location r bib_obj (lws i) call_number_str loc rep of
        (ev, rep') \<Rightarrow>
          (case sync_locations r bib_obj lws call_number_str (Suc i) locs rep' of
             (evs, rep'') \<Rightarrow> (ev @ evs, rep'')))"

definition create_notice ::
  "run \<Rightarrow> world \<Rightarrow> marc_record \<Rightarrow> string \<Rightarrow> notice_report
     \<Rightarrow> event list \<times> notice_report option"
where
  \<comment> \<open>\<open>main\<close>, from \<open>build_bib_with_record\<close> to the end of the loop body: the events, and
      the row appended to \<open>reports\<close> if one is\<close>
  "create_notice r w record call_number_str rep =
     (case build_bib_with_record record (w_marcxml_error w) of
        Inl e \<Rightarrow> ([], None)
      | Inr (rec_el, bib_element) \<Rightarrow>
          if check_xsd (args r)
             \<and> \<not> (fst (fst (validate_bib_and_record bib_element (marc_schema (xsd r))
                               (bib_schema (xsd r))))
                  \<and> fst (snd (validate_bib_and_record bib_element (marc_schema (xsd r))
                                 (bib_schema (xsd r)))))
          then ([], Some (rep\<lparr> bib_status := Some ''XSD_ERROR'',
                                bib_error := Some ''Bib/Record XSD validation failed (see logs)'' \<rparr>))
          else if dry_run (args r)
          then ([], Some (rep\<lparr> bib_status := Some ''DRY_RUN_OK'', bib_error := Some [] \<rparr>))
          else (case w_created_bib w of
                  Inl e \<Rightarrow>
                    ([Call (CreateBib bib_element)],
                     Some (rep\<lparr> bib_status := Some ''ERROR'', bib_error := Some (str_exc e) \<rparr>))
                | Inr bib_obj \<Rightarrow>
                    (case sync_locations r bib_obj (w_loc w) call_number_str 0
                            (h_locations (holding_cfg r))
                            (rep\<lparr> mms_id := Some (str_opt (bib_mms_id bib_obj)),
                                  bib_status := Some ''CREATED'' \<rparr>) of
                       (evs, rep') \<Rightarrow> (Call (CreateBib bib_element) # evs, Some rep'))))"

definition process_record ::
  "run \<Rightarrow> world \<Rightarrow> marc_record \<Rightarrow> int \<Rightarrow> string \<Rightarrow> event list \<times> notice_report option"
where
  \<comment> \<open>the body of the loop of \<open>main\<close> after the call number is made\<close>
  "process_record r w record idx call_number_str =
     (case build_final_record record of
        Inl e \<Rightarrow> ([], None)
      | Inr current_record \<Rightarrow>
          (case extract_marc_info current_record of
             Inl e \<Rightarrow> ([], None)
           | Inr info \<Rightarrow>
               (case dedup_check r w info
                       (NoticeReport idx (info_infoscience_id info) (info_title info)
                          (info_author info) (Some call_number_str)) of
                  Inl e \<Rightarrow> ([], None)
                | Inr (rep, exists) \<Rightarrow>
                    if exists
                    then ([], Some (rep\<lparr> bib_status := Some ''SKIPPED_SRU_EXISTS'' \<rparr>))
                    else create_notice r w record call_number_str rep)))"

text \<open>
  The loop of \<open>main\<close> over the records of the stream. Its state is the four variables
  \<open>record_index\<close>, \<open>call_number_value\<close>, \<open>reports\<close> and the events so far; it returns the
  state at its end, whether \<open>break\<close> ended it, and the records of the stream that it never
  pulled. \<open>worlds\<close> gives the answers of the outside for the record of each index.
\<close>

datatype loop_state =
  LoopState (cur_record_index: int) (call_number_value: int) (reports: "notice_report list")
    (events: "event list")

fun main_loop ::
  "run \<Rightarrow> (int \<Rightarrow> world) \<Rightarrow> marc_record list \<Rightarrow> loop_state
     \<Rightarrow> loop_state \<times> bool \<times> marc_record list"
where
  "main_loop r worlds [] st = (st, False, [])"
| "main_loop r worlds (record # rest) st =
     (if max_records (args r) > 0 \<and> cur_record_index st + 1 > max_records (args r)
      then (LoopState (cur_record_index st + 1) (call_number_value st) (reports st) (events st),
            True, rest)
      else (case process_record r (worlds (cur_record_index st + 1)) record
                   (cur_record_index st + 1)
                   (h_call_number_prefix (holding_cfg r) @ '' ''
                    @ str_int (call_number_value st + 1)) of
              (ev, row) \<Rightarrow>
                main_loop r worlds rest
                  (LoopState (cur_record_index st + 1) (call_number_value st + 1)
                     (reports st @ (case row of None \<Rightarrow> [] | Some rep \<Rightarrow> [rep]))
                     (events st @ ev))))"

text \<open>
  \<open>main\<close>. The stream is given drained: the records \<open>iter_infoscience_records\<close> yields and
  the exception it ends with, if any, which reaches \<open>main\<close> only when the loop asks for a
  record after the last one. \<open>analytics\<close> is what \<open>get_last_call_number_from_analytics\<close>
  returns, \<open>loaded\<close> the four schemas as \<open>load_xml_schema\<close> loads them, \<open>csv_error\<close>
  the exception that writing the report raises if it does (making the directory, opening
  the file, writing the rows: no handler is around them, and they run, when there is a row
  to write, before the call number is saved), \<open>can_write\<close> whether writing
  \<open>last_call_number.txt\<close> succeeds. A run ends with \<open>SystemExit\<close>, with
  an exception nobody caught, or finished: with the rows of the report, the number written
  to \<open>last_call_number.txt\<close> (\<open>None\<close> when the write failed), the events and the number of
  records pulled from the stream.
\<close>

datatype main_result =
  SystemExit int
| Raised exc
| Finished (csv_rows: "notice_report list") (last_call_number: "int option")
    (all_events: "event list") (pulled: nat)

definition main ::
  "main_args \<Rightarrow> general_cfg \<Rightarrow> infoscience_cfg \<Rightarrow> holding_info \<Rightarrow> item_info
     \<Rightarrow> int option \<times> string option \<Rightarrow> schemas \<Rightarrow> string \<Rightarrow> marc_record list \<times> exc option
     \<Rightarrow> (int \<Rightarrow> world) \<Rightarrow> exc option \<Rightarrow> bool \<Rightarrow> main_result"
where
  "main a general infoscience hi ii analytics loaded date stream worlds csv_error can_write =
     (case analytics of
        (current_call_number, err) \<Rightarrow>
          (case current_call_number of
             None \<Rightarrow> SystemExit 1
           | Some seed \<Rightarrow>
               if truthy err then SystemExit 1
               else (case main_loop
                            (Run (resolve_args a general infoscience) hi ii
                               (if check_xsd (resolve_args a general infoscience) then loaded
                                else Schemas None None None None)
                               date)
                            worlds (fst stream) (LoopState 0 seed [] []) of
                       (st, broke, rest) \<Rightarrow>
                         (case (if broke then None else snd stream) of
                            Some e \<Rightarrow> Raised e
                          | None \<Rightarrow>
                              (case (if reports st = [] then None else csv_error) of
                                 Some e \<Rightarrow> Raised e
                               | None \<Rightarrow>
                                   Finished (reports st)
                                     (if can_write then Some (call_number_value st) else None)
                                     (events st) (length (fst stream) - length rest))))))"

section \<open>The mapper in the words of the specification\<close>

text \<open>
  A second description, which reads the source record by itself and not through \<open>fget\<close>
  and \<open>fget_all\<close>, to compare the mapper with. \<open>first_value\<close> is the value a
  non-repeatable rule reads: the first value of the subfield in the first field of the
  tag. \<open>all_values\<close> are the values of a repeatable subfield: over every field of the
  tag, in the order of the record, and within a field in the order of its subfields.

  The abstract note: all values of 653\<open>$a\<close>, trimmed, the empty ones dropped, each kept
  at its first occurrence only, joined by \<open>; \<close> with every \<open>||\<close> replaced; the label if a
  keyword is left; the agency subfield in every case.
\<close>

definition first_value :: "marc_record \<Rightarrow> string \<Rightarrow> string \<Rightarrow> string option" where
  "first_value src t c =
     (case [f \<leftarrow> fields src. tag f = t] of
        [] \<Rightarrow> None
      | f # _ \<Rightarrow> (case [val s. s \<leftarrow> subfields f, code s = c] of [] \<Rightarrow> None | v # _ \<Rightarrow> Some v))"

definition all_values :: "marc_record \<Rightarrow> string \<Rightarrow> string \<Rightarrow> string list" where
  "all_values src t c = [val s. f \<leftarrow> fields src, tag f = t, s \<leftarrow> subfields f, code s = c]"

fun dedup_first :: "string list \<Rightarrow> string list" where
  "dedup_first [] = []"
| "dedup_first (x # xs) = x # dedup_first (filter (\<lambda>y. y \<noteq> x) xs)"

definition surviving_keywords :: "marc_record \<Rightarrow> string list" where
  "surviving_keywords src =
     dedup_first (filter (\<lambda>k. k \<noteq> []) (map strip (all_values src ''653'' ''a'')))"

definition abstract_note :: "marc_record \<Rightarrow> marc_field" where
  "abstract_note src =
     MarcField ''520'' None ('' '', '' '')
       ((if surviving_keywords src = [] then []
         else [Subfield ''a''
                 (''Mots-cl'' @ [CHR 0xE9] @ ''s de l'' @ [CHR 0x27] @ ''auteur : ''
                  @ replace_double_bar (join ''; '' (surviving_keywords src)))])
        @ [Subfield ''5'' ''CH-ZuSLS EPFL''])"

section \<open>Inputs of the examples\<close>

text \<open>
  The values \<open>load_config\<close> returns when no file is given, the defaults of the parameters
  of \<open>main\<close>, and an outside for the examples: a source record of one title and one
  author, a catalogue search that cannot be reached, and a catalogue that answers every
  creation with a new object.
\<close>

definition default_general_cfg :: general_cfg where
  "default_general_cfg =
     \<lparr> g_env = ''S'', g_institution_code = ''HPH'', g_check_xsd = True,
       g_report_prefix = ''rapport_'', g_skip_sru_check = False \<rparr>"

definition default_infoscience_cfg :: infoscience_cfg where
  "default_infoscience_cfg =
     \<lparr> i_spc_rpp = 100, i_of_format = ''xm'', i_since_strategy = ''previous_month'' \<rparr>"

definition default_holding_info :: holding_info where
  "default_holding_info =
     \<lparr> h_library_code = ''hph_bjnbecip'', h_locations = [''E02XA'', ''E02SP''],
       h_call_number_prefix = ''ZTK'' \<rparr>"

definition default_item_info :: item_info where
  "default_item_info =
     \<lparr> po_line = None, department_code = Some ''AcqDepthph_bjnbecip'',
       material_type_code = ''THESIS'' \<rparr>"

definition default_args :: main_args where
  "default_args =
     \<lparr> dry_run = False, use_static_url = False, spc_page = 1, spc_rpp = 100, env = None,
       institution_code = None, check_xsd = True, max_records = 0, skip_sru_check = False \<rparr>"

definition no_schemas :: schemas where
  "no_schemas = Schemas None None None None"

definition example_record :: marc_record where
  "example_record =
     Record ''00000nam a2200000 a 4500''
       [control_field ''001'' ''42'',
        data_field ''245'' '' '' '' '' [Subfield ''a'' ''On Graphs''],
        data_field ''700'' '' '' '' '' [Subfield ''a'' ''Doe, Jane'']]"

definition record_without_001 :: marc_record where
  \<comment> \<open>the same record without its control field 001\<close>
  "record_without_001 =
     Record ''00000nam a2200000 a 4500''
       [data_field ''245'' '' '' '' '' [Subfield ''a'' ''On Graphs''],
        data_field ''700'' '' '' '' '' [Subfield ''a'' ''Doe, Jane'']]"

definition keyword_record :: marc_record where
  \<comment> \<open>a record with keywords in two 653 fields\<close>
  "keyword_record =
     Record ''00000nam a2200000 a 4500''
       [control_field ''001'' ''42'',
        data_field ''653'' '' '' '' '' [Subfield ''a'' '' ai '', Subfield ''a'' ''AI||x''],
        data_field ''245'' '' '' '' '' [Subfield ''a'' ''On Graphs''],
        data_field ''653'' '' '' '' '' [Subfield ''a'' ''ai'', Subfield ''a'' ''  '',
                                        Subfield ''a'' ''ml'']]"

definition new_holding :: "string \<Rightarrow> holding" where
  "new_holding loc =
     \<lparr> holding_id = ''22'', library = Some ''hph_bjnbecip'', location = Some loc,
       error = False, error_msg = None \<rparr>"

definition new_item :: item where
  "new_item = \<lparr> item_id = Some ''23'', item_error = False, item_error_msg = None \<rparr>"

definition new_bib :: izbib where
  "new_bib = \<lparr> bib_mms_id = Some ''991'', holdings = [], get_holdings_error = None \<rparr>"

definition search_down :: "string \<Rightarrow> string \<Rightarrow> exc + sru_response" where
  "search_down url query = Inl (Exc ''ConnectionError'')"

definition search_not_found :: "string \<Rightarrow> string \<Rightarrow> exc + sru_response" where
  "search_not_found url query = Inr (SruResponse 200 (Inr None))"

definition fresh_location :: "string \<Rightarrow> nat \<Rightarrow> loc_world" where
  \<comment> \<open>at every position: the bib has no holding yet, and the holding the catalogue creates
      is at \<open>loc\<close>\<close>
  "fresh_location loc i = LocWorld [] None (Inr (new_holding loc)) (Inr new_item)"

definition example_world ::
  "(string \<Rightarrow> string \<Rightarrow> exc + sru_response) \<Rightarrow> string \<Rightarrow> world" where
  "example_world search loc = World search None (Inr new_bib) (fresh_location loc)"

definition every_record :: "world \<Rightarrow> int \<Rightarrow> world" where
  \<comment> \<open>the same answers for the record of every index\<close>
  "every_record w idx = w"


section \<open>Properties\<close>

lemma split_on_no_sep: "c \<notin> set s \<Longrightarrow> split_on c s = [s]"
  by (induction s) auto

lemma contains_self: "contains n n"
  by (cases n) auto

lemma contains_append: "contains n (a @ n)"
  by (induction a) (auto simp: contains_self)

lemma lower_append: "lower (a @ b) = lower a @ lower b"
  by (simp add: lower_def)

lemma lower_pages: "lower '' pages'' = '' pages''"
  by (simp add: lower_def lower_char_def)

lemma contains_pages_suffix: "contains ''pages'' (lower (a @ '' pages''))"
proof -
  have "lower (a @ '' pages'') = (lower a @ '' '') @ ''pages''"
    by (simp add: lower_def lower_char_def)
  then show ?thesis
    by (simp only: contains_append)
qed

subsection \<open>Name inversion\<close>

text \<open>
  C6. \<open>invert_name_comma\<close> maps \<open>Doe, Jane\<close> to \<open>Jane Doe\<close> and \<open>Doe, Jane, Q.\<close> to
  \<open>Jane Q. Doe\<close>, and returns every name that contains no comma unchanged. (The source
  splits at every comma, which is what puts \<open>Q.\<close> after \<open>Jane\<close> without a comma.)
\<close>

theorem invert_name_comma_examples_and_no_comma:
  "invert_name_comma (Some ''Doe, Jane'') = Some ''Jane Doe''
   \<and> invert_name_comma (Some ''Doe, Jane, Q.'') = Some ''Jane Q. Doe''
   \<and> (\<forall>name. CHR '','' \<notin> set name \<longrightarrow> invert_name_comma (Some name) = Some name)"
proof (intro conjI allI impI)
  show "invert_name_comma (Some ''Doe, Jane'') = Some ''Jane Doe''"
    by (simp add: invert_name_comma_def strip_def strip_chars_def is_space_def)
  show "invert_name_comma (Some ''Doe, Jane, Q.'') = Some ''Jane Q. Doe''"
    by (simp add: invert_name_comma_def strip_def strip_chars_def is_space_def)
next
  fix name :: string
  assume "CHR '','' \<notin> set name"
  then show "invert_name_comma (Some name) = Some name"
    by (simp add: invert_name_comma_def split_on_no_sep)
qed

theorem invert_name_comma_witness:
  "CHR '','' \<notin> set ''Plato'' \<and> invert_name_comma (Some ''Plato'') = Some ''Plato''"
proof -
  have h: "CHR '','' \<notin> set ''Plato''" by simp
  from invert_name_comma_examples_and_no_comma
  have "CHR '','' \<notin> set ''Plato'' \<longrightarrow> invert_name_comma (Some ''Plato'') = Some ''Plato''"
    by blast
  with h show ?thesis by blast
qed

subsection \<open>Page suffix\<close>

text \<open>
  C7, as the claim states it, fails at the empty value: the word \<open>pages\<close> does not appear
  in it, and yet nothing is appended.
\<close>

theorem ensure_pages_suffix_empty_counterexample:
  "\<not> contains ''pages'' (lower []) \<and> ensure_pages_suffix (Some []) \<noteq> Some ([] @ '' pages'')"
  by (simp add: ensure_pages_suffix_def lower_def)

text \<open>
  C7, amended. \<open>ensure_pages_suffix\<close> is idempotent. It returns an absent or empty value
  as it is, and a value in which \<open>pages\<close> appears (whatever the case of its letters) as it
  is; to any other value, stripped of the white space around it, it appends \<open> pages\<close>:
  \<open>120\<close> becomes \<open>120 pages\<close> and \<open>120 pages\<close> stays.
\<close>

theorem ensure_pages_suffix_idempotent:
  "ensure_pages_suffix (ensure_pages_suffix v) = ensure_pages_suffix v
   \<and> ensure_pages_suffix None = None
   \<and> ensure_pages_suffix (Some []) = Some []
   \<and> (contains ''pages'' (lower s) \<longrightarrow> ensure_pages_suffix (Some s) = Some s)
   \<and> (s \<noteq> [] \<and> \<not> contains ''pages'' (lower s)
        \<longrightarrow> ensure_pages_suffix (Some s) = Some (strip s @ '' pages''))
   \<and> ensure_pages_suffix (Some ''120'') = Some ''120 pages''
   \<and> ensure_pages_suffix (Some ''120 pages'') = Some ''120 pages''"
proof (intro conjI impI)
  show "ensure_pages_suffix (ensure_pages_suffix v) = ensure_pages_suffix v"
  proof (cases v)
    case None
    then show ?thesis by (simp add: ensure_pages_suffix_def)
  next
    case (Some x)
    then show ?thesis
      using contains_pages_suffix [of "strip x"] by (simp add: ensure_pages_suffix_def)
  qed
  show "ensure_pages_suffix None = None"
    by (simp add: ensure_pages_suffix_def)
  show "ensure_pages_suffix (Some []) = Some []"
    by (simp add: ensure_pages_suffix_def)
  show "ensure_pages_suffix (Some ''120'') = Some ''120 pages''"
    by (simp add: ensure_pages_suffix_def strip_def strip_chars_def is_space_def lower_def
        lower_char_def)
  show "ensure_pages_suffix (Some ''120 pages'') = Some ''120 pages''"
    by (simp add: ensure_pages_suffix_def lower_def lower_char_def)
next
  assume "contains ''pages'' (lower s)"
  then show "ensure_pages_suffix (Some s) = Some s"
    by (simp add: ensure_pages_suffix_def)
next
  assume "s \<noteq> [] \<and> \<not> contains ''pages'' (lower s)"
  then show "ensure_pages_suffix (Some s) = Some (strip s @ '' pages'')"
    by (simp add: ensure_pages_suffix_def)
qed

theorem ensure_pages_suffix_witness:
  "''12 '' \<noteq> [] \<and> \<not> contains ''pages'' (lower ''12 '')
   \<and> ensure_pages_suffix (Some ''12 '') = Some ''12 pages''
   \<and> contains ''pages'' (lower ''12 Pages'')
   \<and> ensure_pages_suffix (Some ''12 Pages'') = Some ''12 Pages''
   \<and> ensure_pages_suffix (ensure_pages_suffix (Some ''12 '')) = ensure_pages_suffix (Some ''12 '')"
proof -
  have a: "''12 '' \<noteq> [] \<and> \<not> contains ''pages'' (lower ''12 '')"
    by code_simp
  have b: "contains ''pages'' (lower ''12 Pages'')"
    by code_simp
  have s: "strip ''12 '' @ '' pages'' = ''12 pages''"
    by code_simp
  from a b s ensure_pages_suffix_idempotent [of "Some ''12 ''" "''12 ''"]
    ensure_pages_suffix_idempotent [of "Some ''12 ''" "''12 Pages''"]
  show ?thesis by simp
qed

subsection \<open>The fields of the target record\<close>

lemma dedup_loop_eq:
  "dedup_loop ks seen acc = acc @ dedup_first (filter (\<lambda>k. k \<notin> seen) ks)"
proof (induction ks arbitrary: seen acc)
  case Nil
  then show ?case by simp
next
  case (Cons k ks)
  have f: "filter (\<lambda>y. y \<noteq> k \<and> y \<notin> seen) ks = filter (\<lambda>y. y \<notin> seen \<and> y \<noteq> k) ks"
    by (rule filter_cong) auto
  show ?case
    by (simp add: Cons.IH f)
qed

lemma strip_Nil: "strip [] = []"
  by (simp add: strip_def strip_chars_def)

lemma concat_map_if: "concat (map (\<lambda>x. if P x then [g x] else []) xs) = map g (filter P xs)"
  by (induction xs) auto

lemma get_subfields_eq: "get_subfields f c = [val s. s \<leftarrow> subfields f, code s = c]"
  by (simp add: get_subfields_def concat_map_if)

lemma fget_all_eq: "fget_all src t c = all_values src t c"
proof -
  have "concat (map (\<lambda>f. get_subfields f c) (filter (\<lambda>f. tag f = t) fs))
      = [val s. f \<leftarrow> fs, tag f = t, s \<leftarrow> subfields f, code s = c]" for fs
    by (induction fs) (auto simp: get_subfields_eq)
  then show ?thesis
    by (simp add: fget_all_def all_values_def get_fields_def)
qed

lemma fget_eq: "fget src t c = first_value src t c"
proof -
  have h: "field_has f c \<longleftrightarrow> get_subfields f c \<noteq> []" for f
    by (auto simp: field_has_def get_subfields_def filter_empty_conv)
  show ?thesis
    unfolding fget_def first_value_def record_get_def get_fields_def field_get_def
      get_subfields_eq [symmetric] h
    by (auto split: list.splits)
qed

lemma keywords_653_eq:
  "keywords_653 src = filter (\<lambda>k. k \<noteq> []) (map strip (all_values src ''653'' ''a''))"
proof -
  have "(\<lambda>k. k \<noteq> [] \<and> strip k \<noteq> []) = ((\<lambda>k. k \<noteq> []) \<circ> strip)"
    by (auto simp: fun_eq_iff strip_Nil)
  then show ?thesis
    by (simp add: keywords_653_def filter_map fget_all_eq)
qed

lemma dst_520_eq: "dst_520 src = abstract_note src"
  by (simp add: dst_520_def abstract_note_def surviving_keywords_def dedup_loop_eq
      keywords_653_eq data_field_def KEYWORDS_LABEL_def AGENCY_def)

lemma dedup_first_set: "set (dedup_first xs) = set xs"
  by (induction xs rule: dedup_first.induct) auto

lemma dedup_first_distinct: "distinct (dedup_first xs)"
  by (induction xs rule: dedup_first.induct) (auto simp: dedup_first_set)

lemma cand_720_has_a: "cand_720 src = Some f \<Longrightarrow> field_has f ''a''"
  by (auto simp: cand_720_def find_Some_iff split: option.splits)

lemma field_has_getitem: "field_has f c \<Longrightarrow> \<exists>v. field_getitem f c = Inr v"
  by (auto simp: field_has_def get_subfields_def field_getitem_def filter_empty_conv split: list.splits)

lemma dst_700_total:
  "\<exists>f. dst_700 src = Inr f \<and> tag f = ''700'' \<and> Subfield ''4'' ''dgs'' \<in> set (subfields f)"
proof (cases "cand_720 src")
  case None
  then show ?thesis by (simp add: dst_700_def data_field_def)
next
  case (Some f)
  then obtain v where "field_getitem f ''a'' = Inr v"
    using cand_720_has_a field_has_getitem by blast
  with Some show ?thesis by (simp add: dst_700_def data_field_def)
qed

lemma tags_opt_field: "map tag (opt_field t i1 i2 subs) = (if subs = [] then [] else [t])"
  by (simp add: opt_field_def data_field_def)

lemma opt_subfield_Nil: "opt_subfield c v = [] \<longleftrightarrow> \<not> truthy v"
  by (simp add: opt_subfield_def)

lemmas dst_defs = dst_001_def dst_008_def dst_040_def
      dst_100_def dst_245_def dst_264_def dst_300_def dst_336_def dst_337_def dst_338_def
      dst_502_def dst_520_def dst_655_idref_def dst_655_gnd_def dst_655_sbt_def
      opt_field_def data_field_def control_field_def

lemma cf001_absent: "get_fields src ''001'' = [] \<Longrightarrow> cf001 src = Inl (Exc ''KeyError'')"
  by (simp add: cf001_def record_getitem_def)

lemma cf001_present: "get_fields src ''001'' = f # fs \<Longrightarrow> cf001 src = Inr (data f)"
  by (simp add: cf001_def record_getitem_def)

lemma no_001_raises:
  "get_fields src ''001'' = [] \<Longrightarrow> build_final_record src = Inl (Exc ''KeyError'')"
  by (simp add: build_final_record_def cf001_absent)

lemma build_final_record_Inr:
  "get_fields src ''001'' = f001 # fs \<Longrightarrow>
   \<exists>f700. dst_700 src = Inr f700 \<and> tag f700 = ''700''
     \<and> Subfield ''4'' ''dgs'' \<in> set (subfields f700)
     \<and> build_final_record src =
         Inr (Record FINAL_LEADER
                 (dst_001 (data f001) @ [dst_008, dst_040, dst_100 src] @ dst_245 src
                  @ dst_264 src @ [dst_300 src, dst_336, dst_337, dst_338] @ dst_502 src
                  @ [dst_520 src, dst_655_idref, dst_655_gnd, dst_655_sbt, f700]))"
  using dst_700_total [of src] by (auto simp: build_final_record_def cf001_present)

lemma build_final_record_returns:
  "get_fields src ''001'' \<noteq> [] \<Longrightarrow> \<exists>dst. build_final_record src = Inr dst"
  using build_final_record_Inr [of src] by (cases "get_fields src ''001''") auto

lemma build_final_record_has_001:
  "build_final_record src = Inr dst \<Longrightarrow> \<exists>f fs. get_fields src ''001'' = f # fs"
  using no_001_raises [of src] by (cases "get_fields src ''001''") auto

lemma truthy_expand_epfl: "truthy (expand_epfl v) = truthy v"
  by (auto simp: truthy_def expand_epfl_def EPFL_FULL_NAME_def split: option.splits)

lemma truthy_ensure_pages_suffix: "truthy (ensure_pages_suffix v) = truthy v"
  by (auto simp: truthy_def ensure_pages_suffix_def split: option.splits)

lemma tags_001: "map tag (dst_001 c) = (if truthy c then [''001''] else [])"
  by (simp add: dst_001_def control_field_def)

lemma tags_245:
  "map tag (dst_245 src) =
     (if truthy (first_value src ''245'' ''a'') \<or> truthy (first_value src ''245'' ''b'')
         \<or> truthy (invert_name_comma (author700a src)) then [''245''] else [])"
  by (simp add: dst_245_def tags_opt_field opt_subfield_Nil fget_eq)

lemma tags_264:
  "map tag (dst_264 src) =
     (if truthy (first_value src ''260'' ''a'') \<or> truthy (first_value src ''260'' ''b'')
         \<or> truthy (first_value src ''260'' ''c'') then [''264''] else [])"
  by (simp add: dst_264_def tags_opt_field opt_subfield_Nil truthy_expand_epfl fget_eq)

lemma tags_502:
  "map tag (dst_502 src) =
     (if truthy (first_value src ''336'' ''a'') \<or> truthy (first_value src ''260'' ''a'')
         \<or> truthy (first_value src ''260'' ''b'') \<or> truthy (first_value src ''920'' ''b'')
         \<or> truthy (first_value src ''088'' ''a'') then [''502''] else [])"
  by (simp add: dst_502_def tags_opt_field opt_subfield_Nil thesis_type_def thesis_place_def
      thesis_number_def fget_eq)

lemma tags_static:
  "tag dst_008 = ''008''" "tag dst_040 = ''040''" "tag (dst_100 src) = ''100''"
  "tag (dst_300 src) = ''300''" "tag dst_336 = ''336''" "tag dst_337 = ''337''"
  "tag dst_338 = ''338''" "tag (dst_520 src) = ''520''" "tag dst_655_idref = ''655''"
  "tag dst_655_gnd = ''655''" "tag dst_655_sbt = ''655''"
  by (simp_all add: dst_defs Let_def)

lemma field_has_opt_subfield:
  "field_has (data_field t i1 i2 (opt_subfield c v @ rest)) c \<longleftrightarrow> truthy v \<or> c \<in> set (map code rest)"
  by (auto simp: field_has_def data_field_def opt_subfield_def)

lemma get_fields_dst:
  assumes "build_final_record src = Inr dst"
  shows "get_fields dst ''100'' = [dst_100 src]"
    and "get_fields dst ''300'' = [dst_300 src]"
    and "get_fields dst ''520'' = [dst_520 src]"
proof -
  from build_final_record_has_001 [OF assms] obtain f fs where
    "get_fields src ''001'' = f # fs" by blast
  from build_final_record_Inr [OF this] assms
  show "get_fields dst ''100'' = [dst_100 src]"
    and "get_fields dst ''300'' = [dst_300 src]"
    and "get_fields dst ''520'' = [dst_520 src]"
    by (auto simp: get_fields_def dst_defs Let_def)
qed

lemma get_001_dst:
  assumes "build_final_record src = Inr dst" and "get_fields src ''001'' = f # fs"
  shows "get_fields dst ''001'' =
           (if truthy (data f) then [control_field ''001'' (or_empty (data f))] else [])"
  using build_final_record_Inr [OF assms(2)] assms(1)
  by (auto simp: get_fields_def dst_defs Let_def)

lemma tags_dst:
  assumes "build_final_record src = Inr dst" and "get_fields src ''001'' = f001 # fs"
  shows "map tag (fields dst) =
       (if truthy (data f001) then [''001''] else [])
       @ [''008'', ''040'', ''100'']
       @ (if truthy (first_value src ''245'' ''a'') \<or> truthy (first_value src ''245'' ''b'')
             \<or> truthy (invert_name_comma (author700a src)) then [''245''] else [])
       @ (if truthy (first_value src ''260'' ''a'') \<or> truthy (first_value src ''260'' ''b'')
             \<or> truthy (first_value src ''260'' ''c'') then [''264''] else [])
       @ [''300'', ''336'', ''337'', ''338'']
       @ (if truthy (first_value src ''336'' ''a'') \<or> truthy (first_value src ''260'' ''a'')
             \<or> truthy (first_value src ''260'' ''b'') \<or> truthy (first_value src ''920'' ''b'')
             \<or> truthy (first_value src ''088'' ''a'') then [''502''] else [])
       @ [''520'', ''655'', ''655'', ''655'', ''700'']"
proof -
  from build_final_record_Inr [OF assms(2)] assms(1) obtain f700 where
    t: "tag f700 = ''700''" and
    d: "dst = Record FINAL_LEADER
                 (dst_001 (data f001) @ [dst_008, dst_040, dst_100 src] @ dst_245 src
                  @ dst_264 src @ [dst_300 src, dst_336, dst_337, dst_338] @ dst_502 src
                  @ [dst_520 src, dst_655_idref, dst_655_gnd, dst_655_sbt, f700])"
    by auto
  show ?thesis
    unfolding d
    by (simp only: marc_record.sel map_append list.map tags_001 tags_245 tags_264 tags_502
        tags_static t)
qed

lemma static_dst:
  assumes "build_final_record src = Inr dst"
  shows "leader dst = ''00000nam a2200000 c 4500''"
    and "set [dst_008, dst_040, dst_336, dst_337, dst_338, dst_655_idref, dst_655_gnd,
              dst_655_sbt] \<subseteq> set (fields dst)"
proof -
  from build_final_record_has_001 [OF assms] obtain f fs where
    "get_fields src ''001'' = f # fs" by blast
  from build_final_record_Inr [OF this] assms
  show "leader dst = ''00000nam a2200000 c 4500''"
    and "set [dst_008, dst_040, dst_336, dst_337, dst_338, dst_655_idref, dst_655_gnd,
              dst_655_sbt] \<subseteq> set (fields dst)"
    by (auto simp: FINAL_LEADER_def)
qed

text \<open>
  What the mapper returns for a record that has a 001: the fixed leader and the static
  fields, a 300 with its two constants, a 520 with the agency subfield and a 100; of 001,
  245, 264 and 502 exactly those whose source data is present, in the order of the source.
\<close>

lemma build_final_record_fields:
  assumes "get_fields src ''001'' = f001 # fs"
  shows "\<exists>dst. build_final_record src = Inr dst
     \<and> leader dst = ''00000nam a2200000 c 4500''
     \<and> set [dst_008, dst_040, dst_336, dst_337, dst_338, dst_655_idref, dst_655_gnd,
             dst_655_sbt] \<subseteq> set (fields dst)
     \<and> get_fields dst ''300'' = [dst_300 src]
     \<and> set [Subfield ''b'' ''illustrations'', Subfield ''c'' ''28 cm'']
          \<subseteq> set (subfields (dst_300 src))
     \<and> field_has (dst_300 src) ''a'' = truthy (first_value src ''300'' ''a'')
     \<and> get_fields dst ''520'' = [dst_520 src]
     \<and> Subfield ''5'' ''CH-ZuSLS EPFL'' \<in> set (subfields (dst_520 src))
     \<and> get_fields dst ''100'' = [dst_100 src]
     \<and> field_has (dst_100 src) ''a'' = truthy (author700a src)
     \<and> map tag (fields dst) =
         (if truthy (data f001) then [''001''] else [])
         @ [''008'', ''040'', ''100'']
         @ (if truthy (first_value src ''245'' ''a'') \<or> truthy (first_value src ''245'' ''b'')
               \<or> truthy (invert_name_comma (author700a src)) then [''245''] else [])
         @ (if truthy (first_value src ''260'' ''a'') \<or> truthy (first_value src ''260'' ''b'')
               \<or> truthy (first_value src ''260'' ''c'') then [''264''] else [])
         @ [''300'', ''336'', ''337'', ''338'']
         @ (if truthy (first_value src ''336'' ''a'') \<or> truthy (first_value src ''260'' ''a'')
               \<or> truthy (first_value src ''260'' ''b'') \<or> truthy (first_value src ''920'' ''b'')
               \<or> truthy (first_value src ''088'' ''a'') then [''502''] else [])
         @ [''520'', ''655'', ''655'', ''655'', ''700'']"
proof -
  obtain dst where d: "build_final_record src = Inr dst"
    using build_final_record_Inr [OF assms] by blast
  have s300: "set [Subfield ''b'' ''illustrations'', Subfield ''c'' ''28 cm'']
          \<subseteq> set (subfields (dst_300 src))"
    by (simp add: dst_300_def data_field_def)
  have a300: "field_has (dst_300 src) ''a'' = truthy (first_value src ''300'' ''a'')"
    by (simp add: dst_300_def field_has_opt_subfield truthy_ensure_pages_suffix fget_eq)
  have s520: "Subfield ''5'' ''CH-ZuSLS EPFL'' \<in> set (subfields (dst_520 src))"
    by (simp add: dst_520_def data_field_def Let_def AGENCY_def)
  have a100: "field_has (dst_100 src) ''a'' = truthy (author700a src)"
    by (simp add: dst_100_def field_has_opt_subfield)
  from d static_dst [OF d] get_fields_dst [OF d] tags_dst [OF d assms] s300 a300 s520 a100
  show ?thesis by blast
qed

subsection \<open>A source record without control field 001\<close>

text \<open>
  C3 at its failing input. On a source record without a field 001, and so on the record
  without any field, \<open>build_final_record\<close> raises \<open>KeyError\<close>: \<open>src["001"]\<close> is evaluated
  before it can be compared with \<open>None\<close>. It returns a target record exactly for the
  source records that have a 001.
\<close>

theorem build_final_record_raises_without_001:
  "(get_fields src ''001'' = [] \<longrightarrow> build_final_record src = Inl (Exc ''KeyError''))
   \<and> (get_fields src ''001'' \<noteq> [] \<longrightarrow> (\<exists>dst. build_final_record src = Inr dst))
   \<and> build_final_record (Record l []) = Inl (Exc ''KeyError'')"
proof (intro conjI impI)
  assume "get_fields src ''001'' = []"
  then show "build_final_record src = Inl (Exc ''KeyError'')"
    by (rule no_001_raises)
next
  assume "get_fields src ''001'' \<noteq> []"
  then show "\<exists>dst. build_final_record src = Inr dst"
    by (rule build_final_record_returns)
next
  show "build_final_record (Record l []) = Inl (Exc ''KeyError'')"
    by (simp add: no_001_raises get_fields_def)
qed

theorem build_final_record_raises_witness:
  "get_fields record_without_001 ''001'' = []
   \<and> build_final_record record_without_001 = Inl (Exc ''KeyError'')
   \<and> get_fields example_record ''001'' = [control_field ''001'' ''42'']
   \<and> (\<exists>dst. build_final_record example_record = Inr dst)"
proof -
  have a: "get_fields record_without_001 ''001'' = []"
    by (simp add: record_without_001_def get_fields_def data_field_def)
  have b: "get_fields example_record ''001'' = [control_field ''001'' ''42'']"
    by (simp add: example_record_def get_fields_def data_field_def control_field_def)
  then have c: "get_fields example_record ''001'' \<noteq> []"
    by simp
  from a build_final_record_raises_without_001 [of record_without_001]
  have "build_final_record record_without_001 = Inl (Exc ''KeyError'')"
    by blast
  moreover from c build_final_record_raises_without_001 [of example_record]
  have "\<exists>dst. build_final_record example_record = Inr dst"
    by blast
  ultimately show ?thesis using a b by blast
qed

subsection \<open>The abstract note\<close>

lemma dedup_first_snoc:
  "dedup_first (ks @ [k]) = (if k \<in> set ks then dedup_first ks else dedup_first ks @ [k])"
  by (induction ks rule: dedup_first.induct) auto

lemma surviving_set:
  "set (surviving_keywords src) = set (map strip (all_values src ''653'' ''a'')) - {[]}"
  by (auto simp: surviving_keywords_def dedup_first_set)

lemma all_values_two_fields:
  "all_values (Record l [data_field ''653'' i1 i2 [Subfield ''a'' x, Subfield ''a'' y],
                         data_field ''653'' j1 j2 [Subfield ''a'' z, Subfield ''a'' w]])
     ''653'' ''a'' = [x, y, z, w]"
  by (simp add: all_values_def data_field_def)

lemma abstract_example:
  "abstract_note
      (Record l [data_field ''653'' '' '' '' '' [Subfield ''a'' ''ai'', Subfield ''a'' ''AI''],
                 data_field ''653'' '' '' '' '' [Subfield ''a'' ''ai'', Subfield ''a'' ''ml'']])
    = MarcField ''520'' None ('' '', '' '')
        [Subfield ''a'' (''Mots-cl'' @ [CHR 0xE9] @ ''s de l'' @ [CHR 0x27] @ ''auteur : ''
                         @ ''ai; AI; ml''),
         Subfield ''5'' ''CH-ZuSLS EPFL'']"
  by (simp add: abstract_note_def surviving_keywords_def all_values_two_fields
      strip_def strip_chars_def is_space_def)

text \<open>
  C8. The field 520 that \<open>build_final_record\<close> builds from a source record is the abstract
  note of the specification, and it is the one 520 of the target record whenever the
  mapper returns one. Its keywords are the values of 653\<open>$a\<close> over all 653 fields of the
  record, trimmed, without the empty ones and without repetitions (two keywords that
  differ in case are different), in the order of their first occurrence: a keyword met
  again is dropped, a new one is put at the end. They are joined by \<open>; \<close> and every
  \<open>||\<close> becomes \<open>; \<close>. Subfield \<open>$a\<close> with the label is there exactly when a keyword is
  left, the agency subfield always. The keywords \<open>ai\<close>, \<open>AI\<close> of a first 653 and
  \<open>ai\<close>, \<open>ml\<close> of a second give \<open>ai; AI; ml\<close>.
\<close>

theorem abstract_note_from_keywords:
  "dst_520 src = abstract_note src
   \<and> (build_final_record src = Inr dst \<longrightarrow> get_fields dst ''520'' = [abstract_note src])
   \<and> Subfield ''5'' ''CH-ZuSLS EPFL'' \<in> set (subfields (abstract_note src))
   \<and> field_has (abstract_note src) ''a'' = (surviving_keywords src \<noteq> [])
   \<and> distinct (surviving_keywords src)
   \<and> set (surviving_keywords src) = set (map strip (all_values src ''653'' ''a'')) - {[]}
   \<and> dedup_first (ks @ [k]) = (if k \<in> set ks then dedup_first ks else dedup_first ks @ [k])
   \<and> all_values (Record l [data_field ''653'' i1 i2 [Subfield ''a'' x, Subfield ''a'' y],
                             data_field ''653'' j1 j2 [Subfield ''a'' z, Subfield ''a'' w]])
        ''653'' ''a'' = [x, y, z, w]
   \<and> abstract_note
        (Record l [data_field ''653'' '' '' '' '' [Subfield ''a'' ''ai'', Subfield ''a'' ''AI''],
                   data_field ''653'' '' '' '' '' [Subfield ''a'' ''ai'', Subfield ''a'' ''ml'']])
      = MarcField ''520'' None ('' '', '' '')
          [Subfield ''a'' (''Mots-cl'' @ [CHR 0xE9] @ ''s de l'' @ [CHR 0x27] @ ''auteur : ''
                           @ ''ai; AI; ml''),
           Subfield ''5'' ''CH-ZuSLS EPFL'']"
proof -
  have g: "build_final_record src = Inr dst \<longrightarrow> get_fields dst ''520'' = [abstract_note src]"
    using get_fields_dst(3) [of src dst] by (simp add: dst_520_eq)
  have s5: "Subfield ''5'' ''CH-ZuSLS EPFL'' \<in> set (subfields (abstract_note src))"
    by (simp add: abstract_note_def)
  have a: "field_has (abstract_note src) ''a'' = (surviving_keywords src \<noteq> [])"
    by (simp add: abstract_note_def field_has_def)
  have dd: "distinct (surviving_keywords src)"
    by (simp add: surviving_keywords_def dedup_first_distinct)
  from dst_520_eq [of src] g s5 a dd surviving_set [of src] dedup_first_snoc [of ks k]
    all_values_two_fields [of l i1 i2 x y j1 j2 z w] abstract_example [of l]
  show ?thesis by blast
qed

theorem abstract_note_witness:
  "(\<exists>dst. build_final_record keyword_record = Inr dst
       \<and> get_fields dst ''520'' =
           [MarcField ''520'' None ('' '', '' '')
              [Subfield ''a'' (''Mots-cl'' @ [CHR 0xE9] @ ''s de l'' @ [CHR 0x27]
                               @ ''auteur : '' @ ''ai; AI; x; ml''),
               Subfield ''5'' ''CH-ZuSLS EPFL'']])
   \<and> dst_520 keyword_record =
       MarcField ''520'' None ('' '', '' '')
         [Subfield ''a'' (''Mots-cl'' @ [CHR 0xE9] @ ''s de l'' @ [CHR 0x27]
                          @ ''auteur : '' @ ''ai; AI; x; ml''),
          Subfield ''5'' ''CH-ZuSLS EPFL'']"
proof -
  have e: "abstract_note keyword_record =
      MarcField ''520'' None ('' '', '' '')
         [Subfield ''a'' (''Mots-cl'' @ [CHR 0xE9] @ ''s de l'' @ [CHR 0x27]
                          @ ''auteur : '' @ ''ai; AI; x; ml''),
          Subfield ''5'' ''CH-ZuSLS EPFL'']"
    by (simp add: abstract_note_def surviving_keywords_def all_values_def keyword_record_def
        data_field_def control_field_def strip_def strip_chars_def is_space_def)
  have "get_fields keyword_record ''001'' \<noteq> []"
    by (simp add: keyword_record_def get_fields_def control_field_def data_field_def)
  then obtain dst where d: "build_final_record keyword_record = Inr dst"
    using build_final_record_returns by blast
  from d abstract_note_from_keywords [of keyword_record dst]
  have "get_fields dst ''520'' = [abstract_note keyword_record]"
    and "dst_520 keyword_record = abstract_note keyword_record"
    by blast+
  with d e show ?thesis by auto
qed

subsection \<open>The two toggles\<close>

text \<open>
  C10. After \<open>main\<close> has merged its parameters with the \<open>general\<close> dictionary of the
  configuration, the schema check is on exactly when the parameter and the configuration
  both have it on, and the catalogue lookup is skipped exactly when the parameter or the
  configuration asks for it.
\<close>

theorem effective_toggles:
  "check_xsd (resolve_args a general infoscience) = (check_xsd a \<and> g_check_xsd general)
   \<and> skip_sru_check (resolve_args a general infoscience)
       = (skip_sru_check a \<or> g_skip_sru_check general)"
  by (simp add: resolve_args_def)

theorem effective_toggles_witness:
  "\<not> check_xsd
       (resolve_args
          \<lparr> dry_run = False, use_static_url = False, spc_page = 1, spc_rpp = - 1, env = None,
            institution_code = None, check_xsd = True, max_records = 0,
            skip_sru_check = False \<rparr>
          \<lparr> g_env = ''S'', g_institution_code = ''HPH'', g_check_xsd = False,
            g_report_prefix = ''rapport_'', g_skip_sru_check = True \<rparr>
          \<lparr> i_spc_rpp = 100, i_of_format = ''xm'', i_since_strategy = ''previous_month'' \<rparr>)
   \<and> skip_sru_check
       (resolve_args
          \<lparr> dry_run = False, use_static_url = False, spc_page = 1, spc_rpp = - 1, env = None,
            institution_code = None, check_xsd = True, max_records = 0,
            skip_sru_check = False \<rparr>
          \<lparr> g_env = ''S'', g_institution_code = ''HPH'', g_check_xsd = False,
            g_report_prefix = ''rapport_'', g_skip_sru_check = True \<rparr>
          \<lparr> i_spc_rpp = 100, i_of_format = ''xm'', i_since_strategy = ''previous_month'' \<rparr>)"
  using effective_toggles
    [of "\<lparr> dry_run = False, use_static_url = False, spc_page = 1, spc_rpp = - 1, env = None,
            institution_code = None, check_xsd = True, max_records = 0,
            skip_sru_check = False \<rparr>"
        "\<lparr> g_env = ''S'', g_institution_code = ''HPH'', g_check_xsd = False,
            g_report_prefix = ''rapport_'', g_skip_sru_check = True \<rparr>"
        "\<lparr> i_spc_rpp = 100, i_of_format = ''xm'', i_since_strategy = ''previous_month'' \<rparr>"]
  by simp

subsection \<open>The call number at the end of a run\<close>

lemma main_loop_count:
  "main_loop r worlds recs st = (st', broke, rest) \<Longrightarrow>
   0 \<le> cur_record_index st \<Longrightarrow>
   (max_records (args r) > 0 \<longrightarrow> cur_record_index st \<le> max_records (args r)) \<Longrightarrow>
   (if max_records (args r) > 0 \<and> cur_record_index st + int (length recs) > max_records (args r)
    then broke
         \<and> cur_record_index st' = max_records (args r) + 1
         \<and> call_number_value st' = call_number_value st + (max_records (args r) - cur_record_index st)
         \<and> int (length recs) - int (length rest) = max_records (args r) + 1 - cur_record_index st
    else \<not> broke
         \<and> cur_record_index st' = cur_record_index st + int (length recs)
         \<and> call_number_value st' = call_number_value st + int (length recs)
         \<and> rest = [])"
proof (induction recs arbitrary: st)
  case Nil
  then show ?case by auto
next
  case (Cons rec0 recs)
  show ?case
  proof (cases "max_records (args r) > 0 \<and> cur_record_index st + 1 > max_records (args r)")
    case True
    with Cons.prems show ?thesis by auto
  next
    case False
    obtain ev row where p: "process_record r (worlds (cur_record_index st + 1)) rec0
                   (cur_record_index st + 1)
                   (h_call_number_prefix (holding_cfg r) @ '' ''
                    @ str_int (call_number_value st + 1)) = (ev, row)"
      by (cases "process_record r (worlds (cur_record_index st + 1)) rec0
                   (cur_record_index st + 1)
                   (h_call_number_prefix (holding_cfg r) @ '' ''
                    @ str_int (call_number_value st + 1))") auto
    let ?st = "LoopState (cur_record_index st + 1) (call_number_value st + 1)
                     (reports st @ (case row of None \<Rightarrow> [] | Some rep \<Rightarrow> [rep]))
                     (events st @ ev)"
    from False p Cons.prems(1) have m: "main_loop r worlds recs ?st = (st', broke, rest)"
      by auto
    from False Cons.prems(2,3) have
      "0 \<le> cur_record_index ?st"
      "max_records (args r) > 0 \<longrightarrow> cur_record_index ?st \<le> max_records (args r)"
      by auto
    from Cons.IH [OF m this] show ?thesis
      by (auto split: if_splits)
  qed
qed

lemma main_counts:
  "\<exists>rows evs. \<forall>csv_error can_write.
     main a general infoscience hi ii (Some seed, err) loaded date (recs, ending) worlds
       csv_error can_write =
       (if truthy err then SystemExit 1
        else if 0 < max_records a \<and> max_records a < int (length recs)
        then (case (if rows = [] then None else csv_error) of
                Some e \<Rightarrow> Raised e
              | None \<Rightarrow>
                  Finished rows (if can_write then Some (seed + max_records a) else None) evs
                    (nat (max_records a) + 1))
        else (case ending of
                Some e \<Rightarrow> Raised e
              | None \<Rightarrow>
                  (case (if rows = [] then None else csv_error) of
                     Some e \<Rightarrow> Raised e
                   | None \<Rightarrow>
                       Finished rows
                         (if can_write then Some (seed + int (length recs)) else None)
                         evs (length recs))))"
proof -
  let ?r = "Run (resolve_args a general infoscience) hi ii
              (if check_xsd (resolve_args a general infoscience) then loaded
               else Schemas None None None None) date"
  obtain st' broke rest where
    m: "main_loop ?r worlds recs (LoopState 0 seed [] []) = (st', broke, rest)"
    by (cases "main_loop ?r worlds recs (LoopState 0 seed [] [])") auto
  have mr: "max_records (args ?r) = max_records a"
    by (simp add: resolve_args_def)
  from main_loop_count [OF m] mr have c:
    "if max_records a > 0 \<and> int (length recs) > max_records a
     then broke \<and> call_number_value st' = seed + max_records a
          \<and> int (length recs) - int (length rest) = max_records a + 1
     else \<not> broke \<and> call_number_value st' = seed + int (length recs) \<and> rest = []"
    by (auto split: if_splits)
  show ?thesis
  proof (intro exI [of _ "reports st'"] exI [of _ "events st'"] allI)
    fix csv_error :: "exc option" and can_write :: bool
    show "main a general infoscience hi ii (Some seed, err) loaded date (recs, ending) worlds
       csv_error can_write =
       (if truthy err then SystemExit 1
        else if 0 < max_records a \<and> max_records a < int (length recs)
        then (case (if reports st' = [] then None else csv_error) of
                Some e \<Rightarrow> Raised e
              | None \<Rightarrow>
                  Finished (reports st')
                    (if can_write then Some (seed + max_records a) else None) (events st')
                    (nat (max_records a) + 1))
        else (case ending of
                Some e \<Rightarrow> Raised e
              | None \<Rightarrow>
                  (case (if reports st' = [] then None else csv_error) of
                     Some e \<Rightarrow> Raised e
                   | None \<Rightarrow>
                       Finished (reports st')
                         (if can_write then Some (seed + int (length recs)) else None)
                         (events st') (length recs))))"
    proof (cases "truthy err")
      case True
      then show ?thesis by (simp add: main_def)
    next
      case False
      show ?thesis
      proof (cases "0 < max_records a \<and> max_records a < int (length recs)")
        case True
        with c have "broke" "call_number_value st' = seed + max_records a"
          "length recs - length rest = nat (max_records a) + 1"
          by auto
        with False True m show ?thesis
          by (auto simp: main_def split: option.splits)
      next
        case F: False
        with c have "\<not> broke" "call_number_value st' = seed + int (length recs)" "rest = []"
          by auto
        with False F m show ?thesis
          by (auto simp: main_def split: option.splits)
      qed
    qed
  qed
qed

lemma extract_marc_info_returns:
  "get_fields cur ''001'' \<noteq> [] \<Longrightarrow> \<exists>info. extract_marc_info cur = Inr info"
  by (cases "get_fields cur ''001''") (auto simp: extract_marc_info_def record_getitem_def)

lemma example_record_mapped:
  "\<exists>cur info. build_final_record example_record = Inr cur \<and> extract_marc_info cur = Inr info"
proof -
  have g: "get_fields example_record ''001'' = [control_field ''001'' ''42'']"
    by (simp add: example_record_def get_fields_def data_field_def control_field_def)
  then obtain cur where c: "build_final_record example_record = Inr cur"
    using build_final_record_Inr by blast
  from get_001_dst [OF c g] have "get_fields cur ''001'' \<noteq> []"
    by (simp add: control_field_def truthy_def)
  with c extract_marc_info_returns show ?thesis by blast
qed

lemma process_record_dry_run:
  assumes "skip_sru_check (args r)" and "dry_run (args r)" and "\<not> check_xsd (args r)"
    and "w_marcxml_error w = None"
    and "build_final_record src = Inr cur" and "extract_marc_info cur = Inr info"
  shows "snd (process_record r w src idx cn) \<noteq> None"
  using assms
  by (simp add: process_record_def dedup_check_def create_notice_def build_bib_with_record_def)

lemma main_loop_row:
  assumes "snd (process_record r (worlds (cur_record_index st + 1)) rec0
                  (cur_record_index st + 1)
                  (h_call_number_prefix (holding_cfg r) @ '' ''
                   @ str_int (call_number_value st + 1))) \<noteq> None"
    and "max_records (args r) \<le> 0"
  shows "reports (fst (main_loop r worlds [rec0] st)) \<noteq> []"
  using assms by (auto split: prod.splits)

lemma example_run_has_rows:
  "csv_rows
     (main (default_args\<lparr> dry_run := True, check_xsd := False, skip_sru_check := True \<rparr>)
        default_general_cfg default_infoscience_cfg default_holding_info default_item_info
        (Some 41, None) no_schemas ''2025-06-01'' ([example_record], None)
        (every_record (example_world search_down ''E02XA'')) None True) \<noteq> []"
proof -
  let ?a = "default_args\<lparr> dry_run := True, check_xsd := False, skip_sru_check := True \<rparr>"
  let ?r = "Run (resolve_args ?a default_general_cfg default_infoscience_cfg)
              default_holding_info default_item_info
              (if check_xsd (resolve_args ?a default_general_cfg default_infoscience_cfg)
               then no_schemas else Schemas None None None None) ''2025-06-01''"
  let ?w = "every_record (example_world search_down ''E02XA'')"
  let ?st = "LoopState 0 41 [] []"
  obtain cur info where c: "build_final_record example_record = Inr cur"
    "extract_marc_info cur = Inr info"
    using example_record_mapped by blast
  have a: "skip_sru_check (args ?r)" "dry_run (args ?r)" "\<not> check_xsd (args ?r)"
    "max_records (args ?r) \<le> 0"
    by (simp_all add: resolve_args_def default_args_def)
  have w: "w_marcxml_error (?w (cur_record_index ?st + 1)) = None"
    by (simp add: every_record_def example_world_def)
  have "snd (process_record ?r (?w (cur_record_index ?st + 1)) example_record
               (cur_record_index ?st + 1)
               (h_call_number_prefix (holding_cfg ?r) @ '' ''
                @ str_int (call_number_value ?st + 1))) \<noteq> None"
    by (rule process_record_dry_run [OF a(1-3) w c])
  from main_loop_row [where r = ?r and worlds = ?w and st = ?st and ?rec0.0 = example_record,
      OF this a(4)]
  have n: "reports (fst (main_loop ?r ?w [example_record] ?st)) \<noteq> []" .
  obtain st' broke rest where m: "main_loop ?r ?w [example_record] ?st = (st', broke, rest)"
    using prod_cases3 by blast
  from n m have "reports st' \<noteq> []"
    by (simp del: main_loop.simps)
  with m show ?thesis
    by (simp add: main_def truthy_def del: main_loop.simps)
qed

text \<open>
  C1, amended. A run whose seed was obtained ends in one of these ways. When
  \<open>max_records\<close> is positive and the stream has more records than that, the loop pulls
  \<open>max_records + 1\<close> records, leaves at the last one before giving it a call number, and
  the number to write is the seed plus \<open>max_records\<close>: one less than the seed plus the
  records pulled. Otherwise the loop pulls every record of the stream; if the stream ends
  with an exception the run ends with it and writes nothing, and if not, the number to
  write is the seed plus the number of records pulled, whatever became of each record.
  Before the number is written the report is: when the run has a row to report and
  writing the report raises, the run ends with that exception and the number is not
  written. (When the write of the number itself fails, nothing is written either.) The
  rows and the events of the run do not depend on the two writes.
\<close>

theorem last_call_number_counts_processed:
  "\<exists>rows evs. \<forall>csv_error can_write.
     main a general infoscience hi ii (Some seed, err) loaded date (recs, ending) worlds
       csv_error can_write =
       (if truthy err then SystemExit 1
        else if 0 < max_records a \<and> max_records a < int (length recs)
        then (case (if rows = [] then None else csv_error) of
                Some e \<Rightarrow> Raised e
              | None \<Rightarrow>
                  Finished rows (if can_write then Some (seed + max_records a) else None) evs
                    (nat (max_records a) + 1))
        else (case ending of
                Some e \<Rightarrow> Raised e
              | None \<Rightarrow>
                  (case (if rows = [] then None else csv_error) of
                     Some e \<Rightarrow> Raised e
                   | None \<Rightarrow>
                       Finished rows
                         (if can_write then Some (seed + int (length recs)) else None)
                         evs (length recs))))"
  by (rule main_counts)

theorem last_call_number_witness:
  "(\<exists>rows evs.
     main (default_args\<lparr> max_records := 1, dry_run := True, skip_sru_check := True \<rparr>)
       default_general_cfg default_infoscience_cfg default_holding_info default_item_info
       (Some 41, None) no_schemas ''2025-06-01'' ([example_record, example_record], None)
       (every_record (example_world search_down ''E02XA'')) None True
     = Finished rows (Some 42) evs 2)
   \<and> (\<exists>rows evs.
     main (default_args\<lparr> dry_run := True, check_xsd := False, skip_sru_check := True \<rparr>)
       default_general_cfg default_infoscience_cfg default_holding_info default_item_info
       (Some 41, None) no_schemas ''2025-06-01'' ([example_record], None)
       (every_record (example_world search_down ''E02XA'')) None True
     = Finished rows (Some 42) evs 1)
   \<and> main (default_args\<lparr> dry_run := True, check_xsd := False, skip_sru_check := True \<rparr>)
       default_general_cfg default_infoscience_cfg default_holding_info default_item_info
       (Some 41, None) no_schemas ''2025-06-01'' ([example_record], None)
       (every_record (example_world search_down ''E02XA'')) (Some (Exc ''OSError'')) True
     = Raised (Exc ''OSError'')"
proof -
  let ?a1 = "default_args\<lparr> max_records := 1, dry_run := True, skip_sru_check := True \<rparr>"
  let ?a = "default_args\<lparr> dry_run := True, check_xsd := False, skip_sru_check := True \<rparr>"
  let ?w = "every_record (example_world search_down ''E02XA'')"
  have t: "\<not> truthy None"
    by (simp add: truthy_def)
  have mr: "max_records default_args = 0"
    by (simp add: default_args_def)
  from last_call_number_counts_processed
    [of ?a1 default_general_cfg default_infoscience_cfg default_holding_info default_item_info
        41 None no_schemas "''2025-06-01''" "[example_record, example_record]" None ?w]
  obtain rows1 evs1 where r1:
    "\<And>csv_error can_write.
       main ?a1 default_general_cfg default_infoscience_cfg default_holding_info
         default_item_info (Some 41, None) no_schemas ''2025-06-01''
         ([example_record, example_record], None) ?w csv_error can_write
       = (if truthy None then SystemExit 1
          else if 0 < max_records ?a1 \<and> max_records ?a1 < int (length [example_record, example_record])
          then (case (if rows1 = [] then None else csv_error) of
                  Some e \<Rightarrow> Raised e
                | None \<Rightarrow>
                    Finished rows1 (if can_write then Some (41 + max_records ?a1) else None) evs1
                      (nat (max_records ?a1) + 1))
          else (case None of
                  Some e \<Rightarrow> Raised e
                | None \<Rightarrow>
                    (case (if rows1 = [] then None else csv_error) of
                       Some e \<Rightarrow> Raised e
                     | None \<Rightarrow>
                         Finished rows1
                           (if can_write
                            then Some (41 + int (length [example_record, example_record]))
                            else None)
                           evs1 (length [example_record, example_record]))))"
    by blast
  from r1 [of None True] have 1: "\<exists>rows evs.
     main ?a1 default_general_cfg default_infoscience_cfg default_holding_info default_item_info
       (Some 41, None) no_schemas ''2025-06-01'' ([example_record, example_record], None)
       ?w None True
     = Finished rows (Some 42) evs 2"
    by (simp add: t)
  from last_call_number_counts_processed
    [of ?a default_general_cfg default_infoscience_cfg default_holding_info default_item_info
        41 None no_schemas "''2025-06-01''" "[example_record]" None ?w]
  obtain rows evs where r:
    "\<And>csv_error can_write.
       main ?a default_general_cfg default_infoscience_cfg default_holding_info
         default_item_info (Some 41, None) no_schemas ''2025-06-01'' ([example_record], None)
         ?w csv_error can_write
       = (if truthy None then SystemExit 1
          else if 0 < max_records ?a \<and> max_records ?a < int (length [example_record])
          then (case (if rows = [] then None else csv_error) of
                  Some e \<Rightarrow> Raised e
                | None \<Rightarrow>
                    Finished rows (if can_write then Some (41 + max_records ?a) else None) evs
                      (nat (max_records ?a) + 1))
          else (case None of
                  Some e \<Rightarrow> Raised e
                | None \<Rightarrow>
                    (case (if rows = [] then None else csv_error) of
                       Some e \<Rightarrow> Raised e
                     | None \<Rightarrow>
                         Finished rows
                           (if can_write then Some (41 + int (length [example_record]))
                            else None)
                           evs (length [example_record]))))"
    by blast
  from r [of None True] have n:
    "main ?a default_general_cfg default_infoscience_cfg default_holding_info
         default_item_info (Some 41, None) no_schemas ''2025-06-01'' ([example_record], None)
         ?w None True = Finished rows (Some 42) evs 1"
    by (simp add: t mr)
  with example_run_has_rows have "rows \<noteq> []"
    by simp
  with r [of "Some (Exc ''OSError'')" True] have e:
    "main ?a default_general_cfg default_infoscience_cfg default_holding_info
         default_item_info (Some 41, None) no_schemas ''2025-06-01'' ([example_record], None)
         ?w (Some (Exc ''OSError'')) True = Raised (Exc ''OSError'')"
    by (simp add: t mr)
  from n have 2: "\<exists>rows evs.
     main ?a default_general_cfg default_infoscience_cfg default_holding_info default_item_info
       (Some 41, None) no_schemas ''2025-06-01'' ([example_record], None) ?w None True
     = Finished rows (Some 42) evs 1"
    by blast
  from 1 2 e show ?thesis by blast
qed

text \<open>
  C1, as the claim states it, fails under a cap: with \<open>max_records = 1\<close>, a seed of 41 and
  a stream of two records, two records are pulled and 42 is written, not 43.
\<close>

theorem capped_run_counterexample:
  "pulled
     (main (default_args\<lparr> max_records := 1, dry_run := True, skip_sru_check := True \<rparr>)
        default_general_cfg default_infoscience_cfg default_holding_info default_item_info
        (Some 41, None) no_schemas ''2025-06-01'' ([example_record, example_record], None)
        (every_record (example_world search_down ''E02XA'')) None True) = 2
   \<and> last_call_number
     (main (default_args\<lparr> max_records := 1, dry_run := True, skip_sru_check := True \<rparr>)
        default_general_cfg default_infoscience_cfg default_holding_info default_item_info
        (Some 41, None) no_schemas ''2025-06-01'' ([example_record, example_record], None)
        (every_record (example_world search_down ''E02XA'')) None True) = Some 42
   \<and> last_call_number
     (main (default_args\<lparr> max_records := 1, dry_run := True, skip_sru_check := True \<rparr>)
        default_general_cfg default_infoscience_cfg default_holding_info default_item_info
        (Some 41, None) no_schemas ''2025-06-01'' ([example_record, example_record], None)
        (every_record (example_world search_down ''E02XA'')) None True) \<noteq> Some (41 + 2)"
proof -
  let ?a1 = "default_args\<lparr> max_records := 1, dry_run := True, skip_sru_check := True \<rparr>"
  let ?w = "every_record (example_world search_down ''E02XA'')"
  have t: "\<not> truthy None"
    by (simp add: truthy_def)
  from main_counts
    [of ?a1 default_general_cfg default_infoscience_cfg default_holding_info default_item_info
        41 None no_schemas "''2025-06-01''" "[example_record, example_record]" None ?w]
  obtain rows1 evs1 where r1:
    "\<And>csv_error can_write.
       main ?a1 default_general_cfg default_infoscience_cfg default_holding_info
         default_item_info (Some 41, None) no_schemas ''2025-06-01''
         ([example_record, example_record], None) ?w csv_error can_write
       = (if truthy None then SystemExit 1
          else if 0 < max_records ?a1 \<and> max_records ?a1 < int (length [example_record, example_record])
          then (case (if rows1 = [] then None else csv_error) of
                  Some e \<Rightarrow> Raised e
                | None \<Rightarrow>
                    Finished rows1 (if can_write then Some (41 + max_records ?a1) else None) evs1
                      (nat (max_records ?a1) + 1))
          else (case None of
                  Some e \<Rightarrow> Raised e
                | None \<Rightarrow>
                    (case (if rows1 = [] then None else csv_error) of
                       Some e \<Rightarrow> Raised e
                     | None \<Rightarrow>
                         Finished rows1
                           (if can_write
                            then Some (41 + int (length [example_record, example_record]))
                            else None)
                           evs1 (length [example_record, example_record]))))"
    by blast
  from r1 [of None True] have
    "main ?a1 default_general_cfg default_infoscience_cfg default_holding_info
       default_item_info (Some 41, None) no_schemas ''2025-06-01''
       ([example_record, example_record], None) ?w None True
     = Finished rows1 (Some 42) evs1 2"
    by (simp add: t)
  then show ?thesis by simp
qed

subsection \<open>The ingestion stream at a failure\<close>

lemma paginate_stops:
  "http_get (build_infoscience_url page rpp fmt) = Inl e \<Longrightarrow>
     paginate http_get rpp fmt page yielded = Some yielded"
  "http_get (build_infoscience_url page rpp fmt) = Inr resp \<Longrightarrow>
     raise_for_status (exp_status_code resp) = Inl e \<Longrightarrow>
     paginate http_get rpp fmt page yielded = Some yielded"
  "http_get (build_infoscience_url page rpp fmt) = Inr resp \<Longrightarrow>
     raise_for_status (exp_status_code resp) = Inr u \<Longrightarrow> exp_records resp = Inl e \<Longrightarrow>
     paginate http_get rpp fmt page yielded = Some yielded"
  by (subst paginate.simps, simp)+

lemma paginate_next:
  "http_get (build_infoscience_url page rpp fmt) = Inr resp \<Longrightarrow>
     raise_for_status (exp_status_code resp) = Inr u \<Longrightarrow> exp_records resp = Inr recs \<Longrightarrow>
     recs \<noteq> [] \<Longrightarrow>
     paginate http_get rpp fmt page yielded =
       paginate http_get rpp fmt (page + 1) (yielded @ recs)"
  by (subst paginate.simps, simp)

lemma dynamic_stream_never_raises:
  "iter_infoscience_records http_get False start rpp fmt = Some (ys, x) \<Longrightarrow> x = None"
  by (auto simp: iter_infoscience_records_def)

lemma dynamic_stream_keeps_first_page:
  "iter_infoscience_records
     (\<lambda>u. if u = ExportUrl 1 100 ''xm'' then Inr (ExportResponse 200 (Inr [r1, r2]))
          else Inl (Exc ''timeout''))
     False 1 100 ''xm'' = Some ([r1, r2], None)"
proof -
  let ?g = "\<lambda>u. if u = ExportUrl 1 100 ''xm'' then Inr (ExportResponse 200 (Inr [r1, r2]))
          else Inl (Exc ''timeout'')"
  have "paginate ?g 100 ''xm'' 1 [] = paginate ?g 100 ''xm'' (1 + 1) ([] @ [r1, r2])"
    by (rule paginate_next [where resp = "ExportResponse 200 (Inr [r1, r2])"])
       (simp_all add: build_infoscience_url_def raise_for_status_def)
  also have "\<dots> = Some ([] @ [r1, r2])"
    by (rule paginate_stops(1) [where e = "Exc ''timeout''"])
       (simp add: build_infoscience_url_def)
  finally show ?thesis
    by (simp add: iter_infoscience_records_def)
qed

text \<open>
  C5 at its failing input. In the fixed-query mode, an exception of the request, a status
  code that \<open>raise_for_status\<close> refuses and an exception of the parser each leave the
  generator and reach its consumer; in the page-driven mode the same three failures end
  the stream without an exception.
\<close>

theorem static_stream_raises:
  "iter_infoscience_records (\<lambda>u. Inl e) True start rpp fmt = Some ([], Some e)
   \<and> iter_infoscience_records (\<lambda>u. Inr (ExportResponse 500 (Inr recs))) True start rpp fmt
       = Some ([], Some (Exc ''HTTPError''))
   \<and> iter_infoscience_records (\<lambda>u. Inr (ExportResponse 200 (Inl e))) True start rpp fmt
       = Some ([], Some e)
   \<and> iter_infoscience_records (\<lambda>u. Inl e) False start rpp fmt = Some ([], None)
   \<and> iter_infoscience_records (\<lambda>u. Inr (ExportResponse 500 (Inr recs))) False start rpp fmt
       = Some ([], None)
   \<and> iter_infoscience_records (\<lambda>u. Inr (ExportResponse 200 (Inl e))) False start rpp fmt
       = Some ([], None)"
  by (simp add: iter_infoscience_records_def static_fetch_def raise_for_status_def
      paginate_stops)

subsection \<open>An existing holding\<close>

lemma find_in_holdings_find:
  "library_code \<noteq> [] \<Longrightarrow> loc \<noteq> [] \<Longrightarrow>
   find_in_holdings hs library_code loc =
     find (\<lambda>h. \<not> error h \<and> library h = Some library_code \<and> location h = Some loc) hs"
  by (induction hs) (auto simp: truthy_def split: option.splits)

lemma find_in_holdings_None:
  "find (\<lambda>h. \<not> error h \<and> library h = Some library_code \<and> location h = Some loc) hs = None \<Longrightarrow>
   find_in_holdings hs library_code loc = None"
  by (induction hs) (auto split: if_splits)

lemma lookup_None:
  assumes "get_holdings_error bib_obj \<noteq> None
      \<or> find (\<lambda>x. \<not> error x \<and> library x = Some library_code \<and> location x = Some loc)
           (holdings bib_obj) = None"
  shows "snd (find_existing_holding bib_obj library_code loc) = None"
  using assms find_in_holdings_None [of library_code loc "holdings bib_obj"]
  by (auto simp: find_existing_holding_def get_holdings_def split: option.splits)

lemma creer_holding_found:
  assumes "get_holdings_error bib_obj = None"
    and "find_in_holdings (holdings bib_obj) library_code loc = Some h"
  shows "creer_holding bib_obj library_code loc call_no schema created =
     ([Call GetHoldings,
       Log INFO (''Holding d'' @ [CHR 0xE9] @ ''j'' @ [CHR 0xE0] @ '' existante (%s/%s) : %s'')
         [library_code, loc, holding_id h]],
      Inr (Some h))"
proof -
  from assms(2) have "holdings bib_obj \<noteq> []" by auto
  with assms show ?thesis
    by (simp add: creer_holding_def find_existing_holding_def get_holdings_def)
qed

lemma creer_holding_created:
  assumes "snd (find_existing_holding bib_obj library_code loc) = None"
    and "fst (validate_holding_xml
                (build_holding_xml (build_holding_marc library_code loc call_no)) schema)"
    and "truthy (bib_mms_id bib_obj)" and "\<not> error h"
  shows "snd (creer_holding bib_obj library_code loc call_no schema (Inr h)) = Inr (Some h)"
    and "Call (CreateHolding (build_holding_xml (build_holding_marc library_code loc call_no)))
          \<in> set (fst (creer_holding bib_obj library_code loc call_no schema (Inr h)))"
  using assms
  by (auto simp: creer_holding_def find_existing_holding_def create_holding_in_alma_def
      truthy_def split: prod.splits option.splits sum.splits)

text \<open>
  C4, amended. When fetching the holdings of the bib succeeds and they contain a holding
  without wrapper error whose library and location are the requested ones, both non-empty,
  \<open>creer_holding\<close> returns the first such holding after the one call that fetches the
  holdings: it creates nothing. When fetching the holdings raises, or no holding without
  wrapper error has the requested library and location, the lookup answers \<open>None\<close>. When
  the lookup answers \<open>None\<close> (so in these two cases), the new holding passes the schema,
  the bib has an MMS id and the catalogue creates the holding without error,
  \<open>creer_holding\<close> calls the catalogue to create the holding and returns the created
  one; the caller gets a holding when one is found and when one is created.
\<close>

theorem creer_holding_existing:
  "(get_holdings_error bib_obj = None \<and> h \<in> set (holdings bib_obj) \<and> \<not> error h
      \<and> library h = Some library_code \<and> location h = Some loc
      \<and> library_code \<noteq> [] \<and> loc \<noteq> []
    \<longrightarrow> (\<exists>h'. find (\<lambda>x. \<not> error x \<and> library x = Some library_code \<and> location x = Some loc)
                 (holdings bib_obj) = Some h'
            \<and> creer_holding bib_obj library_code loc call_no schema created =
                ([Call GetHoldings,
                  Log INFO (''Holding d'' @ [CHR 0xE9] @ ''j'' @ [CHR 0xE0]
                            @ '' existante (%s/%s) : %s'')
                    [library_code, loc, holding_id h']],
                 Inr (Some h'))))
   \<and> (get_holdings_error bib_obj \<noteq> None
        \<or> find (\<lambda>x. \<not> error x \<and> library x = Some library_code \<and> location x = Some loc)
             (holdings bib_obj) = None
    \<longrightarrow> snd (find_existing_holding bib_obj library_code loc) = None)
   \<and> (snd (find_existing_holding bib_obj library_code loc) = None
      \<and> fst (validate_holding_xml
                (build_holding_xml (build_holding_marc library_code loc call_no)) schema)
      \<and> truthy (bib_mms_id bib_obj) \<and> \<not> error h1
    \<longrightarrow> snd (creer_holding bib_obj library_code loc call_no schema (Inr h1)) = Inr (Some h1)
        \<and> Call (CreateHolding (build_holding_xml (build_holding_marc library_code loc call_no)))
            \<in> set (fst (creer_holding bib_obj library_code loc call_no schema (Inr h1))))
   \<and> ((get_holdings_error bib_obj \<noteq> None
        \<or> find (\<lambda>x. \<not> error x \<and> library x = Some library_code \<and> location x = Some loc)
             (holdings bib_obj) = None)
      \<and> fst (validate_holding_xml
                (build_holding_xml (build_holding_marc library_code loc call_no)) schema)
      \<and> truthy (bib_mms_id bib_obj) \<and> \<not> error h1
    \<longrightarrow> snd (creer_holding bib_obj library_code loc call_no schema (Inr h1)) = Inr (Some h1)
        \<and> Call (CreateHolding (build_holding_xml (build_holding_marc library_code loc call_no)))
            \<in> set (fst (creer_holding bib_obj library_code loc call_no schema (Inr h1))))"
proof -
  let ?P = "\<lambda>x. \<not> error x \<and> library x = Some library_code \<and> location x = Some loc"
  let ?created =
    "snd (creer_holding bib_obj library_code loc call_no schema (Inr h1)) = Inr (Some h1)
     \<and> Call (CreateHolding (build_holding_xml (build_holding_marc library_code loc call_no)))
         \<in> set (fst (creer_holding bib_obj library_code loc call_no schema (Inr h1)))"
  have A: "\<exists>h'. find ?P (holdings bib_obj) = Some h'
            \<and> creer_holding bib_obj library_code loc call_no schema created =
                ([Call GetHoldings,
                  Log INFO (''Holding d'' @ [CHR 0xE9] @ ''j'' @ [CHR 0xE0]
                            @ '' existante (%s/%s) : %s'')
                    [library_code, loc, holding_id h']],
                 Inr (Some h'))"
    if a: "get_holdings_error bib_obj = None \<and> h \<in> set (holdings bib_obj) \<and> \<not> error h
      \<and> library h = Some library_code \<and> location h = Some loc
      \<and> library_code \<noteq> [] \<and> loc \<noteq> []"
  proof -
    from a have "find ?P (holdings bib_obj) \<noteq> None"
      by (auto simp: find_None_iff)
    then obtain h' where f: "find ?P (holdings bib_obj) = Some h'"
      by auto
    with a have "find_in_holdings (holdings bib_obj) library_code loc = Some h'"
      by (simp add: find_in_holdings_find)
    with a f creer_holding_found [of bib_obj library_code loc h' call_no schema created]
    show ?thesis by blast
  qed
  have B: "snd (find_existing_holding bib_obj library_code loc) = None"
    if "get_holdings_error bib_obj \<noteq> None \<or> find ?P (holdings bib_obj) = None"
    using that by (rule lookup_None)
  have C: ?created
    if "snd (find_existing_holding bib_obj library_code loc) = None
      \<and> fst (validate_holding_xml
                (build_holding_xml (build_holding_marc library_code loc call_no)) schema)
      \<and> truthy (bib_mms_id bib_obj) \<and> \<not> error h1"
    using that creer_holding_created [of bib_obj library_code loc call_no schema h1] by blast
  from A B C show ?thesis by blast
qed

theorem creer_holding_existing_witness:
  "creer_holding (new_bib\<lparr> holdings := [new_holding ''E02XA''] \<rparr>) ''hph_bjnbecip'' ''E02XA''
      ''ZTK 42'' None (Inr (new_holding ''E02XA'')) =
     ([Call GetHoldings,
       Log INFO (''Holding d'' @ [CHR 0xE9] @ ''j'' @ [CHR 0xE0] @ '' existante (%s/%s) : %s'')
         [''hph_bjnbecip'', ''E02XA'', ''22'']],
      Inr (Some (new_holding ''E02XA'')))
   \<and> snd (creer_holding new_bib ''hph_bjnbecip'' ''E02SP'' ''ZTK 42'' None
            (Inr (new_holding ''E02SP''))) = Inr (Some (new_holding ''E02SP''))
   \<and> snd (find_existing_holding
            (new_bib\<lparr> holdings := [new_holding ''E02XA''],
                      get_holdings_error := Some (Exc ''timeout'') \<rparr>)
            ''hph_bjnbecip'' ''E02XA'') = None
   \<and> snd (find_existing_holding
            (new_bib\<lparr> holdings := [new_holding ''E02XA''\<lparr> error := True \<rparr>] \<rparr>)
            ''hph_bjnbecip'' ''E02XA'') = None
   \<and> snd (creer_holding (new_bib\<lparr> holdings := [new_holding ''E02XA''\<lparr> error := True \<rparr>] \<rparr>)
            ''hph_bjnbecip'' ''E02XA'' ''ZTK 42'' None
            (Inr (new_holding ''E02XA''\<lparr> holding_id := ''24'' \<rparr>)))
       = Inr (Some (new_holding ''E02XA''\<lparr> holding_id := ''24'' \<rparr>))"
proof -
  let ?P = "\<lambda>x. \<not> error x \<and> library x = Some ''hph_bjnbecip'' \<and> location x = Some ''E02XA''"
  let ?down = "new_bib\<lparr> holdings := [new_holding ''E02XA''],
                         get_holdings_error := Some (Exc ''timeout'') \<rparr>"
  let ?broken = "new_bib\<lparr> holdings := [new_holding ''E02XA''\<lparr> error := True \<rparr>] \<rparr>"
  have a: "get_holdings_error (new_bib\<lparr> holdings := [new_holding ''E02XA''] \<rparr>) = None
      \<and> new_holding ''E02XA'' \<in> set (holdings (new_bib\<lparr> holdings := [new_holding ''E02XA''] \<rparr>))
      \<and> \<not> error (new_holding ''E02XA'')
      \<and> library (new_holding ''E02XA'') = Some ''hph_bjnbecip''
      \<and> location (new_holding ''E02XA'') = Some ''E02XA''
      \<and> ''hph_bjnbecip'' \<noteq> [] \<and> ''E02XA'' \<noteq> []"
    by (simp add: new_bib_def new_holding_def)
  have b: "snd (find_existing_holding new_bib ''hph_bjnbecip'' ''E02SP'') = None
      \<and> fst (validate_holding_xml
                (build_holding_xml (build_holding_marc ''hph_bjnbecip'' ''E02SP'' ''ZTK 42''))
                None)
      \<and> truthy (bib_mms_id new_bib) \<and> \<not> error (new_holding ''E02SP'')"
    by (simp add: find_existing_holding_def get_holdings_def new_bib_def new_holding_def
        validate_holding_xml_def validate_xml_element_def truthy_def)
  have c: "get_holdings_error ?down \<noteq> None"
    by simp
  have d: "find ?P (holdings ?broken) = None"
    by simp
  have e: "fst (validate_holding_xml
                (build_holding_xml (build_holding_marc ''hph_bjnbecip'' ''E02XA'' ''ZTK 42''))
                None)
      \<and> truthy (bib_mms_id ?broken)
      \<and> \<not> error (new_holding ''E02XA''\<lparr> holding_id := ''24'' \<rparr>)"
    by (simp add: new_bib_def new_holding_def validate_holding_xml_def
        validate_xml_element_def truthy_def)
  from a creer_holding_existing
    [of "new_bib\<lparr> holdings := [new_holding ''E02XA''] \<rparr>" "new_holding ''E02XA''"
        "''hph_bjnbecip''" "''E02XA''" "''ZTK 42''" None "Inr (new_holding ''E02XA'')"]
  have 1: "creer_holding (new_bib\<lparr> holdings := [new_holding ''E02XA''] \<rparr>) ''hph_bjnbecip''
      ''E02XA'' ''ZTK 42'' None (Inr (new_holding ''E02XA'')) =
     ([Call GetHoldings,
       Log INFO (''Holding d'' @ [CHR 0xE9] @ ''j'' @ [CHR 0xE0] @ '' existante (%s/%s) : %s'')
         [''hph_bjnbecip'', ''E02XA'', ''22'']],
      Inr (Some (new_holding ''E02XA'')))"
    by (auto simp: new_bib_def new_holding_def)
  from b creer_holding_existing
    [of new_bib _ "''hph_bjnbecip''" "''E02SP''" "''ZTK 42''" None _ "new_holding ''E02SP''"]
  have 2: "snd (creer_holding new_bib ''hph_bjnbecip'' ''E02SP'' ''ZTK 42'' None
            (Inr (new_holding ''E02SP''))) = Inr (Some (new_holding ''E02SP''))"
    by blast
  from c creer_holding_existing [of ?down _ "''hph_bjnbecip''" "''E02XA''"]
  have 3: "snd (find_existing_holding ?down ''hph_bjnbecip'' ''E02XA'') = None"
    by blast
  from d creer_holding_existing [of ?broken _ "''hph_bjnbecip''" "''E02XA''"]
  have 4: "snd (find_existing_holding ?broken ''hph_bjnbecip'' ''E02XA'') = None"
    by blast
  from d e creer_holding_existing
    [of ?broken _ "''hph_bjnbecip''" "''E02XA''" "''ZTK 42''" None _
        "new_holding ''E02XA''\<lparr> holding_id := ''24'' \<rparr>"]
  have 5: "snd (creer_holding ?broken ''hph_bjnbecip'' ''E02XA'' ''ZTK 42'' None
            (Inr (new_holding ''E02XA''\<lparr> holding_id := ''24'' \<rparr>)))
       = Inr (Some (new_holding ''E02XA''\<lparr> holding_id := ''24'' \<rparr>))"
    by blast
  from 1 2 3 4 5 show ?thesis by blast
qed

text \<open>
  C4, as the claim states it, fails when fetching the holdings raises: the bib has a
  holding at the requested library and location, \<open>find_existing_holding\<close> answers
  \<open>None\<close>, and \<open>creer_holding\<close> creates a second holding there.
\<close>

theorem creer_holding_lookup_failure_counterexample:
  "new_holding ''E02XA''
     \<in> set (holdings (new_bib\<lparr> holdings := [new_holding ''E02XA''],
                                get_holdings_error := Some (Exc ''timeout'') \<rparr>))
   \<and> library (new_holding ''E02XA'') = Some ''hph_bjnbecip''
   \<and> location (new_holding ''E02XA'') = Some ''E02XA''
   \<and> Call (CreateHolding
             (build_holding_xml (build_holding_marc ''hph_bjnbecip'' ''E02XA'' ''ZTK 42'')))
       \<in> set (fst (creer_holding
                      (new_bib\<lparr> holdings := [new_holding ''E02XA''],
                                get_holdings_error := Some (Exc ''timeout'') \<rparr>)
                      ''hph_bjnbecip'' ''E02XA'' ''ZTK 42'' None
                      (Inr (new_holding ''E02XA''\<lparr> holding_id := ''24'' \<rparr>))))
   \<and> snd (creer_holding
            (new_bib\<lparr> holdings := [new_holding ''E02XA''],
                      get_holdings_error := Some (Exc ''timeout'') \<rparr>)
            ''hph_bjnbecip'' ''E02XA'' ''ZTK 42'' None
            (Inr (new_holding ''E02XA''\<lparr> holding_id := ''24'' \<rparr>)))
       = Inr (Some (new_holding ''E02XA''\<lparr> holding_id := ''24'' \<rparr>))"
  by (simp add: creer_holding_def find_existing_holding_def get_holdings_def
      create_holding_in_alma_def validate_holding_xml_def validate_xml_element_def
      new_bib_def new_holding_def truthy_def)

subsection \<open>A location without item rule\<close>

lemma creer_item_unrecognised:
  "location h \<noteq> Some ''E02SP'' \<Longrightarrow> location h \<noteq> Some ''E02XA'' \<Longrightarrow>
   creer_item_pour_une_holding h po department material_type schema date created =
     ([Log INFO (''Localisation '' @ [CHR 0x27] @ ''%s'' @ [CHR 0x27] @ '' non g'' @ [CHR 0xE9]
                 @ ''r'' @ [CHR 0xE9] @ ''e -> aucun item cr'' @ [CHR 0xE9] @ [CHR 0xE9] @ ''.'')
         [str_opt (location h)]],
      Inr None)"
  by (simp add: creer_item_pour_une_holding_def)

text \<open>
  C9 at its failing input. For a holding whose location is neither \<open>E02SP\<close> nor
  \<open>E02XA\<close>, \<open>creer_item_pour_une_holding\<close> builds and creates nothing and logs one line
  at level \<open>INFO\<close>; the loop of \<open>main\<close> then records the location with the item status
  \<open>ERROR\<close> and the item error \<open>Item creation failed (see logs)\<close>.
\<close>

theorem unrecognised_location_recorded_as_error:
  "(location h \<noteq> Some ''E02SP'' \<and> location h \<noteq> Some ''E02XA''
    \<longrightarrow> creer_item_pour_une_holding h po department material_type schema date created =
          ([Log INFO (''Localisation '' @ [CHR 0x27] @ ''%s'' @ [CHR 0x27] @ '' non g''
                      @ [CHR 0xE9] @ ''r'' @ [CHR 0xE9] @ ''e -> aucun item cr'' @ [CHR 0xE9]
                      @ [CHR 0xE9] @ ''.'')
              [str_opt (location h)]],
           Inr None))
   \<and> (location h \<noteq> Some ''E02SP'' \<and> location h \<noteq> Some ''E02XA''
      \<and> creer_holding
            (bib_obj\<lparr> holdings := lw_holdings lw,
                      get_holdings_error := lw_get_holdings_error lw \<rparr>)
            (h_library_code (holding_cfg r)) loc cn (holding_schema (xsd r))
            (lw_created_holding lw) = (ev, Inr (Some h))
    \<longrightarrow> sync_location r bib_obj lw cn loc rep =
          (ev @ [Log INFO (''Localisation '' @ [CHR 0x27] @ ''%s'' @ [CHR 0x27] @ '' non g''
                           @ [CHR 0xE9] @ ''r'' @ [CHR 0xE9] @ ''e -> aucun item cr''
                           @ [CHR 0xE9] @ [CHR 0xE9] @ ''.'')
                   [str_opt (location h)]],
           add_location rep loc (Some (holding_id h)) (Some ''CREATED'') None None
             (Some ''ERROR'') (Some ''Item creation failed (see logs)'')))"
proof (intro conjI impI)
  assume "location h \<noteq> Some ''E02SP'' \<and> location h \<noteq> Some ''E02XA''"
  then show "creer_item_pour_une_holding h po department material_type schema date created =
          ([Log INFO (''Localisation '' @ [CHR 0x27] @ ''%s'' @ [CHR 0x27] @ '' non g''
                      @ [CHR 0xE9] @ ''r'' @ [CHR 0xE9] @ ''e -> aucun item cr'' @ [CHR 0xE9]
                      @ [CHR 0xE9] @ ''.'')
              [str_opt (location h)]],
           Inr None)"
    by (simp add: creer_item_unrecognised)
next
  assume a: "location h \<noteq> Some ''E02SP'' \<and> location h \<noteq> Some ''E02XA''
      \<and> creer_holding
            (bib_obj\<lparr> holdings := lw_holdings lw,
                      get_holdings_error := lw_get_holdings_error lw \<rparr>)
            (h_library_code (holding_cfg r)) loc cn (holding_schema (xsd r))
            (lw_created_holding lw) = (ev, Inr (Some h))"
  then show "sync_location r bib_obj lw cn loc rep =
          (ev @ [Log INFO (''Localisation '' @ [CHR 0x27] @ ''%s'' @ [CHR 0x27] @ '' non g''
                           @ [CHR 0xE9] @ ''r'' @ [CHR 0xE9] @ ''e -> aucun item cr''
                           @ [CHR 0xE9] @ [CHR 0xE9] @ ''.'')
                   [str_opt (location h)]],
           add_location rep loc (Some (holding_id h)) (Some ''CREATED'') None None
             (Some ''ERROR'') (Some ''Item creation failed (see logs)''))"
    by (simp add: sync_location_def creer_item_unrecognised truthy_def)
qed

theorem unrecognised_location_witness:
  "creer_item_pour_une_holding (new_holding ''E02ZZ'') None (Some ''AcqDepthph_bjnbecip'')
      ''THESIS'' None ''2025-06-01'' (Inr new_item) =
     ([Log INFO (''Localisation '' @ [CHR 0x27] @ ''%s'' @ [CHR 0x27] @ '' non g'' @ [CHR 0xE9]
                 @ ''r'' @ [CHR 0xE9] @ ''e -> aucun item cr'' @ [CHR 0xE9] @ [CHR 0xE9] @ ''.'')
         [''E02ZZ'']],
      Inr None)
   \<and> locations
       (snd (sync_location
               (Run default_args (default_holding_info\<lparr> h_locations := [''E02ZZ''] \<rparr>)
                  default_item_info no_schemas ''2025-06-01'')
               new_bib (fresh_location ''E02ZZ'' 0) ''ZTK 42'' ''E02ZZ''
               (NoticeReport 1 None None None (Some ''ZTK 42''))))
     = [\<lparr> loc_location = ''E02ZZ'', loc_holding_id = Some ''22'',
          loc_holding_status = Some ''CREATED'', loc_holding_error = None, loc_item_id = None,
          loc_item_status = Some ''ERROR'',
          loc_item_error = Some ''Item creation failed (see logs)'' \<rparr>]"
proof -
  let ?r = "Run default_args (default_holding_info\<lparr> h_locations := [''E02ZZ''] \<rparr>)
              default_item_info no_schemas ''2025-06-01''"
  let ?lw = "fresh_location ''E02ZZ'' 0"
  let ?ch = "creer_holding
            (new_bib\<lparr> holdings := lw_holdings ?lw,
                      get_holdings_error := lw_get_holdings_error ?lw \<rparr>)
            (h_library_code (holding_cfg ?r)) ''E02ZZ'' ''ZTK 42'' (holding_schema (xsd ?r))
            (lw_created_holding ?lw)"
  have l: "location (new_holding ''E02ZZ'') \<noteq> Some ''E02SP''
      \<and> location (new_holding ''E02ZZ'') \<noteq> Some ''E02XA''"
    by (simp add: new_holding_def)
  have "snd ?ch = Inr (Some (new_holding ''E02ZZ''))"
    by (simp add: creer_holding_def find_existing_holding_def get_holdings_def
        create_holding_in_alma_def validate_holding_xml_def validate_xml_element_def
        new_bib_def new_holding_def truthy_def fresh_location_def no_schemas_def)
  then have c: "?ch = (fst ?ch, Inr (Some (new_holding ''E02ZZ'')))"
    by (metis prod.collapse)
  from l c unrecognised_location_recorded_as_error
    [where h = "new_holding ''E02ZZ''" and po = None
       and department = "Some ''AcqDepthph_bjnbecip''" and material_type = "''THESIS''"
       and schema = None and date = "''2025-06-01''" and created = "Inr new_item"
       and bib_obj = new_bib and lw = ?lw and r = ?r and loc = "''E02ZZ''"
       and cn = "''ZTK 42''" and ev = "fst ?ch"
       and rep = "NoticeReport 1 None None None (Some ''ZTK 42'')"]
  show ?thesis
    by (simp add: add_location_def NoticeReport_def new_holding_def str_opt_def)
qed

subsection \<open>A catalogue search that gives no answer\<close>

lemma fetch_not_found:
  "requests_get (sru_base_url inst) (sru_query ttl auth) = Inr resp \<Longrightarrow>
   sru_status_code resp \<noteq> 200 \<or> sru_root resp = Inr None \<or> sru_root resp = Inr (Some None) \<Longrightarrow>
   fetch_marc_record_from_sru ttl auth inst requests_get = Inr False"
  by (auto simp: fetch_marc_record_from_sru_def)

lemma fetch_raises:
  "requests_get (sru_base_url inst) (sru_query ttl auth) = Inl e \<Longrightarrow>
   fetch_marc_record_from_sru ttl auth inst requests_get = Inl e"
  "requests_get (sru_base_url inst) (sru_query ttl auth) = Inr resp \<Longrightarrow>
   sru_status_code resp = 200 \<Longrightarrow> sru_root resp = Inl e \<Longrightarrow>
   fetch_marc_record_from_sru ttl auth inst requests_get = Inl e"
  by (simp_all add: fetch_marc_record_from_sru_def)

lemma process_record_not_found:
  "\<not> skip_sru_check (args r) \<Longrightarrow> build_final_record src = Inr cur \<Longrightarrow>
   extract_marc_info cur = Inr info \<Longrightarrow>
   fetch_marc_record_from_sru (or_empty (info_title info))
     (or_empty (info_author info)) (str_opt (institution_code (args r)))
     (w_requests_get w) = Inr False \<Longrightarrow>
   process_record r w src idx cn =
     create_notice r w src cn
       ((NoticeReport idx (info_infoscience_id info) (info_title info) (info_author info)
           (Some cn))\<lparr> sru_exists := Some False \<rparr>)"
  by (simp add: process_record_def dedup_check_def Let_def)

lemma process_record_sru_raises:
  "\<not> skip_sru_check (args r) \<Longrightarrow> build_final_record src = Inr cur \<Longrightarrow>
   extract_marc_info cur = Inr info \<Longrightarrow>
   fetch_marc_record_from_sru (or_empty (info_title info))
     (or_empty (info_author info)) (str_opt (institution_code (args r)))
     (w_requests_get w) = Inl e \<Longrightarrow>
   process_record r w src idx cn = ([], None)"
  by (simp add: process_record_def dedup_check_def Let_def)

lemma create_notice_dry_run:
  "build_final_record src = Inr cur \<Longrightarrow> w_marcxml_error w = None \<Longrightarrow>
   \<not> check_xsd (args r) \<Longrightarrow> dry_run (args r) \<Longrightarrow>
   create_notice r w src cn rep =
     ([], Some (rep\<lparr> bib_status := Some ''DRY_RUN_OK'', bib_error := Some [] \<rparr>))"
  by (simp add: create_notice_def build_bib_with_record_def)

text \<open>
  C2, amended. \<open>fetch_marc_record_from_sru\<close> answers "not found" for a response whose
  status is not 200 and for a parsed response without \<open>recordData\<close> or without a MARC
  record in it, and the record then goes on to \<open>create_notice\<close> with \<open>sru_exists\<close> false.
  An exception of the request, or of parsing a response of status 200, leaves
  \<open>fetch_marc_record_from_sru\<close>; \<open>main\<close> catches it and abandons the record: no row, no
  call to the catalogue. The search is made with the title and the author that
  \<open>extract_marc_info\<close> reads from the mapped record, which it does whenever the mapped
  record has a 001.
\<close>

theorem dedup_failures:
  "(requests_get (sru_base_url inst) (sru_query ttl auth) = Inr resp
      \<and> (sru_status_code resp \<noteq> 200 \<or> sru_root resp = Inr None
          \<or> sru_root resp = Inr (Some None))
    \<longrightarrow> fetch_marc_record_from_sru ttl auth inst requests_get = Inr False)
   \<and> (requests_get (sru_base_url inst) (sru_query ttl auth) = Inl e
    \<longrightarrow> fetch_marc_record_from_sru ttl auth inst requests_get = Inl e)
   \<and> (requests_get (sru_base_url inst) (sru_query ttl auth) = Inr resp
      \<and> sru_status_code resp = 200 \<and> sru_root resp = Inl e
    \<longrightarrow> fetch_marc_record_from_sru ttl auth inst requests_get = Inl e)
   \<and> (\<not> skip_sru_check (args r) \<and> build_final_record src = Inr cur
      \<and> extract_marc_info cur = Inr info
      \<and> fetch_marc_record_from_sru (or_empty (info_title info))
           (or_empty (info_author info))
           (str_opt (institution_code (args r))) (w_requests_get w) = Inr False
    \<longrightarrow> process_record r w src idx cn =
          create_notice r w src cn
            ((NoticeReport idx (info_infoscience_id info) (info_title info) (info_author info)
                (Some cn))\<lparr> sru_exists := Some False \<rparr>))
   \<and> (\<not> skip_sru_check (args r) \<and> build_final_record src = Inr cur
      \<and> extract_marc_info cur = Inr info
      \<and> fetch_marc_record_from_sru (or_empty (info_title info))
           (or_empty (info_author info))
           (str_opt (institution_code (args r))) (w_requests_get w) = Inl e
    \<longrightarrow> process_record r w src idx cn = ([], None))
   \<and> (get_fields cur ''001'' \<noteq> [] \<longrightarrow> (\<exists>i. extract_marc_info cur = Inr i))"
  using fetch_not_found [of requests_get inst ttl auth resp]
    fetch_raises [of requests_get inst ttl auth]
    process_record_not_found [of r src cur info w idx cn]
    process_record_sru_raises [of r src cur info w e idx cn]
    extract_marc_info_returns [of cur]
  by blast

text \<open>
  C2, as the claim states it, fails when the search cannot be reached: on a dry run
  without schema check, the record is abandoned without a row, while the same record with
  the answer "not found" gets the row \<open>DRY_RUN_OK\<close>.
\<close>

theorem dedup_exception_counterexample:
  "process_record
     (Run (default_args\<lparr> dry_run := True, check_xsd := False \<rparr>) default_holding_info
        default_item_info no_schemas ''2025-06-01'')
     (example_world search_down ''E02XA'') example_record 1 ''ZTK 42'' = ([], None)
   \<and> map_option bib_status
       (snd (process_record
               (Run (default_args\<lparr> dry_run := True, check_xsd := False \<rparr>)
                  default_holding_info default_item_info no_schemas ''2025-06-01'')
               (example_world search_not_found ''E02XA'') example_record 1 ''ZTK 42''))
     = Some (Some ''DRY_RUN_OK'')"
proof -
  let ?r = "Run (default_args\<lparr> dry_run := True, check_xsd := False \<rparr>) default_holding_info
        default_item_info no_schemas ''2025-06-01''"
  obtain cur info where c: "build_final_record example_record = Inr cur"
    and i: "extract_marc_info cur = Inr info"
    using example_record_mapped by blast
  have s: "\<not> skip_sru_check (args ?r)" "\<not> check_xsd (args ?r)" "dry_run (args ?r)"
    by (simp_all add: default_args_def)
  have "fetch_marc_record_from_sru (or_empty (info_title info))
     (or_empty (info_author info)) (str_opt (institution_code (args ?r)))
     (w_requests_get (example_world search_down ''E02XA'')) = Inl (Exc ''ConnectionError'')"
    by (simp add: fetch_marc_record_from_sru_def example_world_def search_down_def)
  from process_record_sru_raises [OF s(1) c i this]
  have a: "process_record ?r (example_world search_down ''E02XA'') example_record 1 ''ZTK 42''
      = ([], None)" .
  have "fetch_marc_record_from_sru (or_empty (info_title info))
     (or_empty (info_author info)) (str_opt (institution_code (args ?r)))
     (w_requests_get (example_world search_not_found ''E02XA'')) = Inr False"
    by (simp add: fetch_marc_record_from_sru_def example_world_def search_not_found_def)
  from process_record_not_found [OF s(1) c i this, of 1 "''ZTK 42''"]
    create_notice_dry_run [OF c _ s(2) s(3), of "example_world search_not_found ''E02XA''"]
  have b: "map_option bib_status
       (snd (process_record ?r (example_world search_not_found ''E02XA'') example_record 1
               ''ZTK 42'')) = Some (Some ''DRY_RUN_OK'')"
    by (simp add: example_world_def)
  from a b show ?thesis by blast
qed

theorem dedup_failures_witness:
  "fetch_marc_record_from_sru ''On Graphs'' ''Jane Doe'' ''HPH'' search_not_found = Inr False
   \<and> fetch_marc_record_from_sru ''On Graphs'' ''Jane Doe'' ''HPH'' search_down
       = Inl (Exc ''ConnectionError'')
   \<and> process_record
       (Run (default_args\<lparr> dry_run := True, check_xsd := False \<rparr>) default_holding_info
          default_item_info no_schemas ''2025-06-01'')
       (example_world search_down ''E02XA'') example_record 1 ''ZTK 42'' = ([], None)
   \<and> (\<exists>row. process_record
       (Run (default_args\<lparr> dry_run := True, check_xsd := False \<rparr>) default_holding_info
          default_item_info no_schemas ''2025-06-01'')
       (example_world search_not_found ''E02XA'') example_record 1 ''ZTK 42''
         = ([], Some row) \<and> sru_exists row = Some False)"
proof -
  let ?r = "Run (default_args\<lparr> dry_run := True, check_xsd := False \<rparr>) default_holding_info
        default_item_info no_schemas ''2025-06-01''"
  obtain cur where c: "build_final_record example_record = Inr cur"
    using example_record_mapped by blast
  from get_001_dst [OF c, of "control_field ''001'' ''42''" "[]"]
  have g: "get_fields cur ''001'' \<noteq> []"
    by (simp add: example_record_def get_fields_def data_field_def control_field_def truthy_def)
  from g dedup_failures [where cur = cur]
  obtain info where i: "extract_marc_info cur = Inr info"
    by blast
  have s: "\<not> skip_sru_check (args ?r)" "\<not> check_xsd (args ?r)" "dry_run (args ?r)"
    by (simp_all add: default_args_def)
  have f: "fetch_marc_record_from_sru (or_empty (info_title info))
     (or_empty (info_author info)) (str_opt (institution_code (args ?r)))
     (w_requests_get (example_world search_down ''E02XA'')) = Inl (Exc ''ConnectionError'')"
    by (simp add: fetch_marc_record_from_sru_def example_world_def search_down_def)
  have f': "fetch_marc_record_from_sru (or_empty (info_title info))
     (or_empty (info_author info)) (str_opt (institution_code (args ?r)))
     (w_requests_get (example_world search_not_found ''E02XA'')) = Inr False"
    by (simp add: fetch_marc_record_from_sru_def example_world_def search_not_found_def)
  have n: "search_not_found (sru_base_url ''HPH'') (sru_query ''On Graphs'' ''Jane Doe'')
      = Inr (SruResponse 200 (Inr None))
      \<and> (sru_status_code (SruResponse 200 (Inr None)) \<noteq> 200
          \<or> sru_root (SruResponse 200 (Inr None)) = Inr None
          \<or> sru_root (SruResponse 200 (Inr None)) = Inr (Some None))"
    by (simp add: search_not_found_def)
  have d: "search_down (sru_base_url ''HPH'') (sru_query ''On Graphs'' ''Jane Doe'')
      = Inl (Exc ''ConnectionError'')"
    by (simp add: search_down_def)
  from n dedup_failures [of search_not_found "''HPH''" "''On Graphs''" "''Jane Doe''"
      "SruResponse 200 (Inr None)"]
  have 1: "fetch_marc_record_from_sru ''On Graphs'' ''Jane Doe'' ''HPH'' search_not_found
      = Inr False"
    by blast
  from d dedup_failures [of search_down "''HPH''" "''On Graphs''" "''Jane Doe''" _
      "Exc ''ConnectionError''"]
  have 2: "fetch_marc_record_from_sru ''On Graphs'' ''Jane Doe'' ''HPH'' search_down
       = Inl (Exc ''ConnectionError'')"
    by blast
  from s(1) c i f dedup_failures [where e = "Exc ''ConnectionError''" and r = ?r
      and src = example_record and cur = cur and info = info
      and w = "example_world search_down ''E02XA''" and idx = 1 and cn = "''ZTK 42''"]
  have 3: "process_record ?r (example_world search_down ''E02XA'') example_record 1 ''ZTK 42''
      = ([], None)"
    by blast
  from s(1) c i f' dedup_failures [where r = ?r
      and src = example_record and cur = cur and info = info
      and w = "example_world search_not_found ''E02XA''" and idx = 1 and cn = "''ZTK 42''"]
  have "process_record ?r (example_world search_not_found ''E02XA'') example_record 1
          ''ZTK 42''
        = create_notice ?r (example_world search_not_found ''E02XA'') example_record ''ZTK 42''
            ((NoticeReport 1 (info_infoscience_id info) (info_title info) (info_author info)
                (Some ''ZTK 42''))\<lparr> sru_exists := Some False \<rparr>)"
    by blast
  with create_notice_dry_run [OF c _ s(2) s(3), of "example_world search_not_found ''E02XA''"]
  have 4: "\<exists>row. process_record ?r (example_world search_not_found ''E02XA'') example_record 1
          ''ZTK 42'' = ([], Some row) \<and> sru_exists row = Some False"
    by (simp add: example_world_def)
  from 1 2 3 4 show ?thesis by blast
qed

end
